theory Spec2Isabelle
  imports Complex_Main "HOL-Library.AList" "HOL-Library.Char_ord" "HOL-Library.List_Lexorder"
    "HOL-Library.Log_Nat"
begin

section \<open>Weather forecast aggregation (Exam.py)\<close>

text \<open>
  The embedding follows \<^verbatim>\<open>src/Exam.py\<close>. Conventions:
  \<^item> The program is modelled twice. In the first part Python floats (temperatures,
    precipitation) are \<^typ>\<open>real\<close> numbers and addition, subtraction and comparison are
    exact; this part carries the properties that do not depend on the values computed.
    The second part repeats the classes on binary64 numbers, with the rounding of each
    operation, and carries the properties that depend on the values.
  \<^item> Python ints (humidity, the transition counter, the time stamp) are \<^typ>\<open>int\<close>.
  \<^item> A Python \<^verbatim>\<open>str\<close> is a \<^typ>\<open>string\<close>; comparison of strings is the lexicographic
    order on characters, as Python's.
  \<^item> The dictionary \<^verbatim>\<open>daily_data\<close> keeps insertion order; it is an association list
    updated by \<^const>\<open>AList.update\<close> (replace in place, or append a new key at the end).
  \<^item> A raise is a value \<open>Inl e\<close> of a sum type.
  \<^item> Logging, the HTTP request and the writing of the JSON file are not modelled.
\<close>

subsection \<open>The builtin \<^verbatim>\<open>round(x, ndigits)\<close>\<close>

text \<open>Python rounds to the nearest value, a tie to the even neighbour.\<close>

definition round_half_even :: "real \<Rightarrow> int" where
  "round_half_even x =
     (let f = \<lfloor>x\<rfloor>; d = x - of_int f
      in if d < 1 / 2 then f
         else if 1 / 2 < d then f + 1
         else if even f then f else f + 1)"

definition round_py :: "real \<Rightarrow> nat \<Rightarrow> real" where
  "round_py x ndigits = of_int (round_half_even (x * 10 ^ ndigits)) / 10 ^ ndigits"

subsection \<open>class WeatherData\<close>

record WeatherData =
  date :: string
  rain_mm :: real
  snow_mm :: real
  transitions :: int
  samples :: "(real \<times> string) list"

definition WeatherData_init :: "string \<Rightarrow> WeatherData" where
  "WeatherData_init d =
     \<lparr>date = d, rain_mm = 0, snow_mm = 0, transitions = 0, samples = []\<rparr>"

definition add_sample :: "WeatherData \<Rightarrow> real \<Rightarrow> string \<Rightarrow> real \<Rightarrow> real \<Rightarrow> WeatherData" where
  "add_sample self tmp weather_main rain snow =
     (let self1 = self\<lparr>rain_mm := rain_mm self + rain\<rparr>;
          self2 = self1\<lparr>snow_mm := snow_mm self1 + snow\<rparr>;
          self3 =
            (if samples self2 \<noteq> [] then
               (let (prev_temp, prev_weather) = last (samples self2);
                    temp_change = \<bar>tmp - prev_temp\<bar>;
                    weather_change = (weather_main \<noteq> prev_weather)
                in if weather_change \<and> 3 < temp_change
                   then self2\<lparr>transitions := transitions self2 + 1\<rparr>
                   else self2)
             else self2)
      in self3\<lparr>samples := samples self3 @ [(tmp, weather_main)]\<rparr>)"

record day_dict =
  date_local :: string
  rain_cumul_mm :: real
  snow_cumul_mm :: real
  major_transitions_count :: int

definition to_dict :: "WeatherData \<Rightarrow> day_dict" where
  "to_dict self =
     \<lparr>date_local = date self,
      rain_cumul_mm = round_py (rain_mm self) 1,
      snow_cumul_mm = round_py (snow_mm self) 1,
      major_transitions_count = transitions self\<rparr>"

text \<open>
  A sequence of calls of \<^verbatim>\<open>add_sample\<close> on one object, in order; a sample is
  \<open>(temp, weather_main, rain, snow)\<close>.
\<close>

type_synonym sample = "real \<times> string \<times> real \<times> real"

fun add_samples :: "WeatherData \<Rightarrow> sample list \<Rightarrow> WeatherData" where
  "add_samples self [] = self"
| "add_samples self ((tmp, weather_main, rain, snow) # xs) =
     add_samples (add_sample self tmp weather_main rain snow) xs"

subsection \<open>The input: one record of the API's list\<close>

datatype error = RequestException | KeyError string | IndexError | OverflowError

text \<open>
  One forecast of the response. A field that may be missing is an option:
  \<open>dt\<close> is \<^verbatim>\<open>forecast['dt']\<close>, \<open>main_temp\<close> is \<^verbatim>\<open>forecast['main']['temp']\<close>
  (\<open>None\<close> when either key is missing), \<open>main_humidity\<close> likewise, \<open>weather\<close> is the list
  \<^verbatim>\<open>forecast['weather']\<close> with, for each element, its \<^verbatim>\<open>'main'\<close> entry, and
  \<open>rain_3h\<close>, \<open>snow_3h\<close> are \<^verbatim>\<open>forecast['rain']['3h']\<close>, \<^verbatim>\<open>forecast['snow']['3h']\<close>
  (\<open>None\<close> when either key is missing, where the source takes the default).
\<close>

record forecast =
  dt :: "int option"
  main_temp :: "real option"
  main_humidity :: "int option"
  weather :: "string option list option"
  rain_3h :: "real option"
  snow_3h :: "real option"

subsection \<open>class WeatherForecast\<close>

record WeatherForecast =
  api_key :: string
  city :: string
  country :: string
  daily_data :: "(string \<times> WeatherData) list"
  max_humidity :: int
  location_name :: string

definition WeatherForecast_init :: "string \<Rightarrow> string \<Rightarrow> string \<Rightarrow> WeatherForecast" where
  "WeatherForecast_init k c co =
     \<lparr>api_key = k, city = c, country = co, daily_data = [], max_humidity = 0,
      location_name = []\<rparr>"

text \<open>
  The body of the loop of \<^verbatim>\<open>_process_forecasts\<close>, for one forecast. The local clock is a
  parameter: \<open>local_date ts\<close> is
  \<^verbatim>\<open>datetime.fromtimestamp(ts).strftime('%Y-%m-%d')\<close>, \<open>None\<close> where \<^verbatim>\<open>fromtimestamp\<close>
  raises (a time stamp out of the platform's range), and \<open>today_str\<close> is
  \<^verbatim>\<open>datetime.now().strftime('%Y-%m-%d')\<close>. A raise ends the run without a report, so the
  object as it is at a raise is not kept.
\<close>

definition process_forecast ::
  "(int \<Rightarrow> string option) \<Rightarrow> string \<Rightarrow> WeatherForecast \<Rightarrow> forecast \<Rightarrow> error + WeatherForecast"
where
  "process_forecast local_date today_str self fc =
     (case dt fc of
        None \<Rightarrow> Inl (KeyError ''dt'')
      | Some ts \<Rightarrow>
     (case local_date ts of
        None \<Rightarrow> Inl OverflowError
      | Some date_str \<Rightarrow>
     if date_str = today_str then Inr self
     else
       let self1 =
             (if map_of (daily_data self) date_str = None
              then self\<lparr>daily_data :=
                     AList.update date_str (WeatherData_init date_str) (daily_data self)\<rparr>
              else self)
       in
     (case main_temp fc of
        None \<Rightarrow> Inl (KeyError ''temp'')
      | Some tmp \<Rightarrow>
     (case weather fc of
        None \<Rightarrow> Inl (KeyError ''weather'')
      | Some [] \<Rightarrow> Inl IndexError
      | Some (None # _) \<Rightarrow> Inl (KeyError ''main'')
      | Some (Some weather_main # _) \<Rightarrow>
     (case main_humidity fc of
        None \<Rightarrow> Inl (KeyError ''humidity'')
      | Some humidity \<Rightarrow>
       let rain = (case rain_3h fc of None \<Rightarrow> 0 | Some r \<Rightarrow> r);
           snow = (case snow_3h fc of None \<Rightarrow> 0 | Some s \<Rightarrow> s);
           self2 = self1\<lparr>max_humidity := max (max_humidity self1) humidity\<rparr>
       in
     (case map_of (daily_data self2) date_str of
        None \<Rightarrow> Inl (KeyError date_str)
      | Some day \<Rightarrow>
          Inr (self2\<lparr>daily_data :=
                 AList.update date_str (add_sample day tmp weather_main rain snow)
                   (daily_data self2)\<rparr>)))))))"

fun process_forecasts ::
  "(int \<Rightarrow> string option) \<Rightarrow> string \<Rightarrow> WeatherForecast \<Rightarrow> forecast list
     \<Rightarrow> error + WeatherForecast"
where
  "process_forecasts local_date today_str self [] = Inr self"
| "process_forecasts local_date today_str self (fc # fcs) =
     (case process_forecast local_date today_str self fc of
        Inl e \<Rightarrow> Inl e
      | Inr self' \<Rightarrow> process_forecasts local_date today_str self' fcs)"

record report =
  forecast_location_name :: string
  country_code :: string
  total_rain_period_mm :: real
  total_snow_period_mm :: real
  max_humidity_period :: int
  forecast_details :: "day_dict list"

text \<open>
  \<^verbatim>\<open>generate_report\<close>, up to the dictionary it builds. The builtin \<^verbatim>\<open>str.upper\<close> is the
  parameter \<open>upper\<close>. \<^verbatim>\<open>sorted\<close> is stable, as \<^const>\<open>sort_key\<close> is.
\<close>

definition generate_report :: "(string \<Rightarrow> string) \<Rightarrow> WeatherForecast \<Rightarrow> report" where
  "generate_report upper self =
     (let total_rain = sum_list (map rain_mm (map snd (daily_data self)));
          total_snow = sum_list (map snow_mm (map snd (daily_data self)))
      in \<lparr>forecast_location_name = location_name self,
          country_code = upper (country self),
          total_rain_period_mm = round_py total_rain 1,
          total_snow_period_mm = round_py total_snow 1,
          max_humidity_period = max_humidity self,
          forecast_details = map to_dict (sort_key date (map snd (daily_data self)))\<rparr>)"

text \<open>
  The response of the API, as \<^verbatim>\<open>fetch_data\<close> reads it: \<open>None\<close> for the whole response
  when the request raises \<^verbatim>\<open>RequestException\<close>; \<open>city_name\<close> is
  \<^verbatim>\<open>data['city']['name']\<close> and \<open>forecast_list\<close> is \<^verbatim>\<open>data['list']\<close>.
\<close>

record api_data =
  city_name :: "string option"
  forecast_list :: "forecast list option"

text \<open>
  \<^verbatim>\<open>fetch_data\<close> catches \<^verbatim>\<open>RequestException\<close> and \<^verbatim>\<open>KeyError\<close> and returns
  \<^verbatim>\<open>False\<close>, here \<open>Inr None\<close>; any other exception leaves it. On \<^verbatim>\<open>True\<close> the
  result carries the updated object.
\<close>

definition fetch_data ::
  "(int \<Rightarrow> string option) \<Rightarrow> string \<Rightarrow> WeatherForecast \<Rightarrow> api_data option
     \<Rightarrow> error + WeatherForecast option"
where
  "fetch_data local_date today_str self response =
     (case response of
        None \<Rightarrow> Inr None
      | Some data \<Rightarrow>
     (case city_name data of
        None \<Rightarrow> Inr None
      | Some name \<Rightarrow>
     (case forecast_list data of
        None \<Rightarrow> Inr None
      | Some fcs \<Rightarrow>
     (case process_forecasts local_date today_str (self\<lparr>location_name := name\<rparr>) fcs of
        Inl (KeyError k) \<Rightarrow> Inr None
      | Inl RequestException \<Rightarrow> Inr None
      | Inl e \<Rightarrow> Inl e
      | Inr self' \<Rightarrow> Inr (Some self')))))"

text \<open>
  \<^verbatim>\<open>main\<close>: the report of a run, \<open>Inr None\<close> when the run exits with status 1.
\<close>

definition main ::
  "(int \<Rightarrow> string option) \<Rightarrow> string \<Rightarrow> (string \<Rightarrow> string) \<Rightarrow> string \<Rightarrow> string \<Rightarrow> string
     \<Rightarrow> api_data option \<Rightarrow> error + report option"
where
  "main local_date today_str upper cty cntry key response =
     (case fetch_data local_date today_str (WeatherForecast_init key cty cntry) response of
        Inl e \<Rightarrow> Inl e
      | Inr None \<Rightarrow> Inr None
      | Inr (Some forecast') \<Rightarrow> Inr (Some (generate_report upper forecast')))"

subsection \<open>The aggregate that keeps only the last sample\<close>

text \<open>
  The variant of \<^verbatim>\<open>WeatherData\<close> that the specification describes (its DailyAggregate):
  instead of the list of all samples it keeps \<open>last_sample\<close>, the most recently added
  (temperature, category) pair. It is written from the specification's words and is
  compared with the class of the source below.
\<close>

record DailyAggregate =
  agg_date :: string
  rain_total_mm :: real
  snow_total_mm :: real
  transition_count :: int
  last_sample :: "(real \<times> string) option"

definition DailyAggregate_init :: "string \<Rightarrow> DailyAggregate" where
  "DailyAggregate_init d =
     \<lparr>agg_date = d, rain_total_mm = 0, snow_total_mm = 0, transition_count = 0,
      last_sample = None\<rparr>"

definition add_sample_last ::
  "DailyAggregate \<Rightarrow> real \<Rightarrow> string \<Rightarrow> real \<Rightarrow> real \<Rightarrow> DailyAggregate"
where
  "add_sample_last a temperature weather_category rain snow =
     (let a1 = a\<lparr>rain_total_mm := rain_total_mm a + rain,
                 snow_total_mm := snow_total_mm a + snow\<rparr>;
          a2 =
            (case last_sample a1 of
               None \<Rightarrow> a1
             | Some (previous_temperature, previous_category) \<Rightarrow>
                 (let temp_change = \<bar>temperature - previous_temperature\<bar>;
                      category_changed = (weather_category \<noteq> previous_category)
                  in if category_changed \<and> 3 < temp_change
                     then a1\<lparr>transition_count := transition_count a1 + 1\<rparr>
                     else a1))
      in a2\<lparr>last_sample := Some (temperature, weather_category)\<rparr>)"

definition to_summary :: "DailyAggregate \<Rightarrow> day_dict" where
  "to_summary a =
     \<lparr>date_local = agg_date a,
      rain_cumul_mm = round_py (rain_total_mm a) 1,
      snow_cumul_mm = round_py (snow_total_mm a) 1,
      major_transitions_count = transition_count a\<rparr>"

fun add_samples_last :: "DailyAggregate \<Rightarrow> sample list \<Rightarrow> DailyAggregate" where
  "add_samples_last a [] = a"
| "add_samples_last a ((tmp, weather_main, rain, snow) # xs) =
     add_samples_last (add_sample_last a tmp weather_main rain snow) xs"

text \<open>The two aggregates hold the same day: same fields, and the same last sample.\<close>

definition same_day :: "WeatherData \<Rightarrow> DailyAggregate \<Rightarrow> bool" where
  "same_day w a \<longleftrightarrow>
     date w = agg_date a \<and> rain_mm w = rain_total_mm a \<and> snow_mm w = snow_total_mm a
     \<and> transitions w = transition_count a
     \<and> last_sample a = (if samples w = [] then None else Some (last (samples w)))"

subsection \<open>Notions used to state the properties\<close>

text \<open>
  The date string that the loop derives from a forecast (\<open>None\<close> where the derivation
  raises).
\<close>

definition forecast_date :: "(int \<Rightarrow> string option) \<Rightarrow> forecast \<Rightarrow> string option" where
  "forecast_date local_date fc = (case dt fc of None \<Rightarrow> None | Some ts \<Rightarrow> local_date ts)"

text \<open>
  The dictionary \<^verbatim>\<open>daily_data\<close> is well formed: its keys are distinct and every object is
  stored under its own date.
\<close>

definition daily_data_ok :: "(string \<times> WeatherData) list \<Rightarrow> bool" where
  "daily_data_ok dd \<longleftrightarrow> distinct (map fst dd) \<and> map (date \<circ> snd) dd = map fst dd"

section \<open>The same program on binary64 numbers\<close>

text \<open>
  The definitions above treat a Python float as a real number. That is faithful for what
  does not depend on the values computed (which objects change, in what order, which
  errors arise), and not for the values themselves: Python's \<^verbatim>\<open>+\<close> and \<^verbatim>\<open>-\<close> on floats
  round their result to binary64. This part models the floats of the program as
  binary64 values and repeats the classes on them.
\<close>

subsection \<open>Python floats\<close>

text \<open>
  A float is a finite value, an infinity or a NaN. \<open>Finite x\<close> stands for the float of
  value \<open>x\<close>; in the program \<open>x\<close> is always representable in binary64, and the operations
  below return representable values only. The sign of a zero is not kept: \<^verbatim>\<open>0.0\<close> and
  \<^verbatim>\<open>-0.0\<close> compare equal in Python and no operation of the program tells them apart
  but printing. A JSON number of the response that Python reads as an \<^verbatim>\<open>int\<close> is taken
  as the float of the same value (exact below \<open>2 ^ 53\<close>).
\<close>

datatype pyfloat = Finite real | PInf | NInf | NaN

text \<open>The integer \<open>e\<close> with \<open>2 ^ e \<le> a < 2 ^ (e + 1)\<close>, for \<open>a > 0\<close>.\<close>

definition ilog2 :: "real \<Rightarrow> int" where
  "ilog2 a = (if 1 \<le> a then bitlen \<lfloor>a\<rfloor> - 1 else - bitlen (\<lceil>1 / a\<rceil> - 1))"

text \<open>
  Rounding of a real number to binary64, to the nearest value, a tie to the even
  significand (IEEE 754 \<^verbatim>\<open>roundTiesToEven\<close>): the significand has 53 bits, the least
  exponent of the last bit is \<open>-1074\<close> (subnormal numbers), and a result of magnitude
  \<open>2 ^ 1024\<close> is an infinity. Python's \<^verbatim>\<open>float\<close> of a decimal literal is this rounding
  of the literal's value.
\<close>

definition binary64 :: "real \<Rightarrow> pyfloat" where
  "binary64 x =
     (if x = 0 then Finite 0
      else
        let q = max (ilog2 \<bar>x\<bar> - 52) (- 1074);
            y = of_int (round_half_even (x / 2 powi q)) * 2 powi q
        in if 2 ^ 1024 \<le> \<bar>y\<bar> then (if 0 < x then PInf else NInf) else Finite y)"

text \<open>Python's \<^verbatim>\<open>a + b\<close>, \<^verbatim>\<open>-a\<close>, \<^verbatim>\<open>a - b\<close>, \<^verbatim>\<open>abs(a)\<close> and \<^verbatim>\<open>a > b\<close> on floats.\<close>

fun float_add :: "pyfloat \<Rightarrow> pyfloat \<Rightarrow> pyfloat" where
  "float_add (Finite a) (Finite b) = binary64 (a + b)"
| "float_add NaN _ = NaN"
| "float_add _ NaN = NaN"
| "float_add PInf NInf = NaN"
| "float_add NInf PInf = NaN"
| "float_add PInf _ = PInf"
| "float_add _ PInf = PInf"
| "float_add NInf _ = NInf"
| "float_add _ NInf = NInf"

fun float_neg :: "pyfloat \<Rightarrow> pyfloat" where
  "float_neg (Finite a) = Finite (- a)"
| "float_neg PInf = NInf"
| "float_neg NInf = PInf"
| "float_neg NaN = NaN"

definition float_sub :: "pyfloat \<Rightarrow> pyfloat \<Rightarrow> pyfloat" where
  "float_sub a b = float_add a (float_neg b)"

fun float_abs :: "pyfloat \<Rightarrow> pyfloat" where
  "float_abs (Finite a) = Finite \<bar>a\<bar>"
| "float_abs PInf = PInf"
| "float_abs NInf = PInf"
| "float_abs NaN = NaN"

fun float_gt :: "pyfloat \<Rightarrow> pyfloat \<Rightarrow> bool" where
  "float_gt NaN _ = False"
| "float_gt _ NaN = False"
| "float_gt (Finite a) (Finite b) = (b < a)"
| "float_gt PInf PInf = False"
| "float_gt PInf _ = True"
| "float_gt NInf _ = False"
| "float_gt (Finite a) PInf = False"
| "float_gt (Finite a) NInf = True"

text \<open>
  Python's \<^verbatim>\<open>round(x, ndigits)\<close> on a float: the value of \<open>x\<close> is rounded to \<open>ndigits\<close>
  decimal places, a tie to the even digit, and the decimal result is converted back to
  binary64; infinities and NaN are returned as they are.
\<close>

fun round_float :: "pyfloat \<Rightarrow> nat \<Rightarrow> pyfloat" where
  "round_float (Finite x) ndigits =
     binary64 (of_int (round_half_even (x * 10 ^ ndigits)) / 10 ^ ndigits)"
| "round_float PInf ndigits = PInf"
| "round_float NInf ndigits = NInf"
| "round_float NaN ndigits = NaN"

text \<open>
  The builtin \<^verbatim>\<open>sum\<close> on floats adds from left to right, starting from 0, in CPython
  before 3.12; later versions add with a compensation term. The functions below take
  the builtin as a parameter; \<open>sum_left\<close> is the first algorithm.
\<close>

definition sum_left :: "pyfloat list \<Rightarrow> pyfloat" where
  "sum_left xs = foldl float_add (Finite 0) xs"

subsection \<open>class WeatherData on floats\<close>

record WeatherData_fl =
  date_fl :: string
  rain_mm_fl :: pyfloat
  snow_mm_fl :: pyfloat
  transitions_fl :: int
  samples_fl :: "(pyfloat \<times> string) list"

definition WeatherData_fl_init :: "string \<Rightarrow> WeatherData_fl" where
  "WeatherData_fl_init d =
     \<lparr>date_fl = d, rain_mm_fl = Finite 0, snow_mm_fl = Finite 0, transitions_fl = 0,
      samples_fl = []\<rparr>"

definition add_sample_fl ::
  "WeatherData_fl \<Rightarrow> pyfloat \<Rightarrow> string \<Rightarrow> pyfloat \<Rightarrow> pyfloat \<Rightarrow> WeatherData_fl"
where
  "add_sample_fl self tmp weather_main rain snow =
     (let self1 = self\<lparr>rain_mm_fl := float_add (rain_mm_fl self) rain\<rparr>;
          self2 = self1\<lparr>snow_mm_fl := float_add (snow_mm_fl self1) snow\<rparr>;
          self3 =
            (if samples_fl self2 \<noteq> [] then
               (let (prev_temp, prev_weather) = last (samples_fl self2);
                    temp_change = float_abs (float_sub tmp prev_temp);
                    weather_change = (weather_main \<noteq> prev_weather)
                in if weather_change \<and> float_gt temp_change (Finite 3)
                   then self2\<lparr>transitions_fl := transitions_fl self2 + 1\<rparr>
                   else self2)
             else self2)
      in self3\<lparr>samples_fl := samples_fl self3 @ [(tmp, weather_main)]\<rparr>)"

record day_dict_fl =
  date_local_fl :: string
  rain_cumul_mm_fl :: pyfloat
  snow_cumul_mm_fl :: pyfloat
  major_transitions_count_fl :: int

definition to_dict_fl :: "WeatherData_fl \<Rightarrow> day_dict_fl" where
  "to_dict_fl self =
     \<lparr>date_local_fl = date_fl self,
      rain_cumul_mm_fl = round_float (rain_mm_fl self) 1,
      snow_cumul_mm_fl = round_float (snow_mm_fl self) 1,
      major_transitions_count_fl = transitions_fl self\<rparr>"

type_synonym sample_fl = "pyfloat \<times> string \<times> pyfloat \<times> pyfloat"

fun add_samples_fl :: "WeatherData_fl \<Rightarrow> sample_fl list \<Rightarrow> WeatherData_fl" where
  "add_samples_fl self [] = self"
| "add_samples_fl self ((tmp, weather_main, rain, snow) # xs) =
     add_samples_fl (add_sample_fl self tmp weather_main rain snow) xs"

text \<open>
  Every partial sum of the amounts \<open>rs\<close>, added one at a time to \<open>s\<close>, is representable
  in binary64.
\<close>

fun sums_exact :: "real \<Rightarrow> real list \<Rightarrow> bool" where
  "sums_exact s [] = True"
| "sums_exact s (r # rs) = (binary64 (s + r) = Finite (s + r) \<and> sums_exact (s + r) rs)"

subsection \<open>class WeatherForecast on floats\<close>

record forecast_fl =
  dt_fl :: "int option"
  main_temp_fl :: "pyfloat option"
  main_humidity_fl :: "int option"
  weather_fl :: "string option list option"
  rain_3h_fl :: "pyfloat option"
  snow_3h_fl :: "pyfloat option"

record WeatherForecast_fl =
  api_key_fl :: string
  city_fl :: string
  country_fl :: string
  daily_data_fl :: "(string \<times> WeatherData_fl) list"
  max_humidity_fl :: int
  location_name_fl :: string

definition WeatherForecast_fl_init :: "string \<Rightarrow> string \<Rightarrow> string \<Rightarrow> WeatherForecast_fl" where
  "WeatherForecast_fl_init k c co =
     \<lparr>api_key_fl = k, city_fl = c, country_fl = co, daily_data_fl = [], max_humidity_fl = 0,
      location_name_fl = []\<rparr>"

definition process_forecast_fl ::
  "(int \<Rightarrow> string option) \<Rightarrow> string \<Rightarrow> WeatherForecast_fl \<Rightarrow> forecast_fl
     \<Rightarrow> error + WeatherForecast_fl"
where
  "process_forecast_fl local_date today_str self fc =
     (case dt_fl fc of
        None \<Rightarrow> Inl (KeyError ''dt'')
      | Some ts \<Rightarrow>
     (case local_date ts of
        None \<Rightarrow> Inl OverflowError
      | Some date_str \<Rightarrow>
     if date_str = today_str then Inr self
     else
       let self1 =
             (if map_of (daily_data_fl self) date_str = None
              then self\<lparr>daily_data_fl :=
                     AList.update date_str (WeatherData_fl_init date_str) (daily_data_fl self)\<rparr>
              else self)
       in
     (case main_temp_fl fc of
        None \<Rightarrow> Inl (KeyError ''temp'')
      | Some tmp \<Rightarrow>
     (case weather_fl fc of
        None \<Rightarrow> Inl (KeyError ''weather'')
      | Some [] \<Rightarrow> Inl IndexError
      | Some (None # _) \<Rightarrow> Inl (KeyError ''main'')
      | Some (Some weather_main # _) \<Rightarrow>
     (case main_humidity_fl fc of
        None \<Rightarrow> Inl (KeyError ''humidity'')
      | Some humidity \<Rightarrow>
       let rain = (case rain_3h_fl fc of None \<Rightarrow> Finite 0 | Some r \<Rightarrow> r);
           snow = (case snow_3h_fl fc of None \<Rightarrow> Finite 0 | Some s \<Rightarrow> s);
           self2 = self1\<lparr>max_humidity_fl := max (max_humidity_fl self1) humidity\<rparr>
       in
     (case map_of (daily_data_fl self2) date_str of
        None \<Rightarrow> Inl (KeyError date_str)
      | Some day \<Rightarrow>
          Inr (self2\<lparr>daily_data_fl :=
                 AList.update date_str (add_sample_fl day tmp weather_main rain snow)
                   (daily_data_fl self2)\<rparr>)))))))"

fun process_forecasts_fl ::
  "(int \<Rightarrow> string option) \<Rightarrow> string \<Rightarrow> WeatherForecast_fl \<Rightarrow> forecast_fl list
     \<Rightarrow> error + WeatherForecast_fl"
where
  "process_forecasts_fl local_date today_str self [] = Inr self"
| "process_forecasts_fl local_date today_str self (fc # fcs) =
     (case process_forecast_fl local_date today_str self fc of
        Inl e \<Rightarrow> Inl e
      | Inr self' \<Rightarrow> process_forecasts_fl local_date today_str self' fcs)"

record report_fl =
  forecast_location_name_fl :: string
  country_code_fl :: string
  total_rain_period_mm_fl :: pyfloat
  total_snow_period_mm_fl :: pyfloat
  max_humidity_period_fl :: int
  forecast_details_fl :: "day_dict_fl list"

text \<open>
  \<^verbatim>\<open>generate_report\<close> on floats; \<open>sum_py\<close> is the builtin \<^verbatim>\<open>sum\<close> and \<open>upper\<close> the
  builtin \<^verbatim>\<open>str.upper\<close>. The days are summed in the order of the dictionary.
\<close>

definition generate_report_fl ::
  "(pyfloat list \<Rightarrow> pyfloat) \<Rightarrow> (string \<Rightarrow> string) \<Rightarrow> WeatherForecast_fl \<Rightarrow> report_fl"
where
  "generate_report_fl sum_py upper self =
     (let total_rain = sum_py (map rain_mm_fl (map snd (daily_data_fl self)));
          total_snow = sum_py (map snow_mm_fl (map snd (daily_data_fl self)))
      in \<lparr>forecast_location_name_fl = location_name_fl self,
          country_code_fl = upper (country_fl self),
          total_rain_period_mm_fl = round_float total_rain 1,
          total_snow_period_mm_fl = round_float total_snow 1,
          max_humidity_period_fl = max_humidity_fl self,
          forecast_details_fl =
            map to_dict_fl (sort_key date_fl (map snd (daily_data_fl self)))\<rparr>)"

section \<open>Properties of WeatherData\<close>

subsection \<open>The effect of one call of \<^verbatim>\<open>add_sample\<close>\<close>

lemma add_sample_rain_mm: "rain_mm (add_sample w t c r s) = rain_mm w + r"
  by (simp add: add_sample_def Let_def split: prod.splits)

lemma add_sample_snow_mm: "snow_mm (add_sample w t c r s) = snow_mm w + s"
  by (simp add: add_sample_def Let_def split: prod.splits)

lemma add_sample_date: "date (add_sample w t c r s) = date w"
  by (simp add: add_sample_def Let_def split: prod.splits)

lemma add_sample_samples: "samples (add_sample w t c r s) = samples w @ [(t, c)]"
  by (simp add: add_sample_def Let_def split: prod.splits)

lemma add_sample_transitions:
  "transitions (add_sample w t c r s) =
     transitions w +
       (if samples w \<noteq> [] \<and> c \<noteq> snd (last (samples w)) \<and> 3 < \<bar>t - fst (last (samples w))\<bar>
        then 1 else 0)"
  by (simp add: add_sample_def Let_def split: prod.splits)

subsection \<open>Accumulation never decreases\<close>

text \<open>
  Claim C8. When the rain and snow amounts of a sample are non-negative, a call of
  \<open>add_sample\<close> decreases none of \<open>rain_mm\<close>, \<open>snow_mm\<close> and \<open>transitions\<close>.
\<close>

theorem add_sample_monotone:
  "0 \<le> r \<Longrightarrow> 0 \<le> s \<Longrightarrow>
   rain_mm w \<le> rain_mm (add_sample w t c r s)
   \<and> snow_mm w \<le> snow_mm (add_sample w t c r s)
   \<and> transitions w \<le> transitions (add_sample w t c r s)"
  by (simp add: add_sample_rain_mm add_sample_snow_mm add_sample_transitions)

theorem add_sample_monotone_witness:
  "(0::real) \<le> 2 \<and> (0::real) \<le> 0
   \<and> rain_mm (WeatherData_init ''2024-01-02'')
       \<le> rain_mm (add_sample (WeatherData_init ''2024-01-02'') 20 ''Rain'' 2 0)
   \<and> snow_mm (WeatherData_init ''2024-01-02'')
       \<le> snow_mm (add_sample (WeatherData_init ''2024-01-02'') 20 ''Rain'' 2 0)
   \<and> transitions (WeatherData_init ''2024-01-02'')
       \<le> transitions (add_sample (WeatherData_init ''2024-01-02'') 20 ''Rain'' 2 0)"
  using add_sample_monotone [of 2 0 "WeatherData_init ''2024-01-02''" 20 "''Rain''"]
  by simp

subsection \<open>Keeping only the last sample\<close>

lemma same_day_init: "same_day (WeatherData_init d) (DailyAggregate_init d)"
  by (simp add: same_day_def WeatherData_init_def DailyAggregate_init_def)

lemma same_day_add_sample:
  "same_day w a \<Longrightarrow> same_day (add_sample w t c r s) (add_sample_last a t c r s)"
  by (simp add: same_day_def add_sample_def add_sample_last_def Let_def split: prod.splits)

lemma same_day_add_samples:
  "same_day w a \<Longrightarrow> same_day (add_samples w xs) (add_samples_last a xs)"
proof (induction xs arbitrary: w a)
  case Nil
  then show ?case by simp
next
  case (Cons x xs)
  obtain t c r s where x: "x = (t, c, r, s)" by (cases x) auto
  show ?case using Cons.IH [OF same_day_add_sample [OF Cons.prems]] by (simp add: x)
qed

lemma same_day_to_dict: "same_day w a \<Longrightarrow> to_dict w = to_summary a"
  by (simp add: same_day_def to_dict_def to_summary_def)

lemma add_sample_last_only:
  "samples w \<noteq> [] \<Longrightarrow>
   add_sample w t c r s =
     (add_sample (w\<lparr>samples := [last (samples w)]\<rparr>) t c r s)\<lparr>samples := samples w @ [(t, c)]\<rparr>"
  by (simp add: add_sample_def Let_def split: prod.splits)

text \<open>
  Claim C9. For every sequence of samples, the dictionary that \<open>to_dict\<close> gives for the
  WeatherData object (which keeps all samples) is the summary of the aggregate that keeps
  only the last (temperature, category) pair: same date, rounded rain, rounded snow and
  transition count. Moreover \<open>to_dict\<close> does not depend on the list of samples, and
  \<open>add_sample\<close> on a non-empty list reads its last element only: replacing the list by
  that single element changes nothing but the list stored.
\<close>

theorem last_sample_refinement:
  "to_dict (add_samples (WeatherData_init d) xs) =
     to_summary (add_samples_last (DailyAggregate_init d) xs)
   \<and> to_dict (w\<lparr>samples := ss\<rparr>) = to_dict w
   \<and> (samples w \<noteq> [] \<longrightarrow>
        add_sample w t c r s =
          (add_sample (w\<lparr>samples := [last (samples w)]\<rparr>) t c r s)
            \<lparr>samples := samples w @ [(t, c)]\<rparr>)"
proof -
  have "to_dict (add_samples (WeatherData_init d) xs) =
          to_summary (add_samples_last (DailyAggregate_init d) xs)"
    by (rule same_day_to_dict [OF same_day_add_samples [OF same_day_init]])
  moreover have "to_dict (w\<lparr>samples := ss\<rparr>) = to_dict w"
    by (simp add: to_dict_def)
  ultimately show ?thesis using add_sample_last_only by blast
qed

theorem last_sample_refinement_witness:
  "to_dict (add_samples (WeatherData_init ''2024-01-02'')
       [(20, ''Clear'', 0, 0), (245 / 10, ''Rain'', 2, 0)]) =
     to_summary (add_samples_last (DailyAggregate_init ''2024-01-02'')
       [(20, ''Clear'', 0, 0), (245 / 10, ''Rain'', 2, 0)])
   \<and> samples (add_samples (WeatherData_init ''2024-01-02'') [(20, ''Clear'', 0, 0)]) \<noteq> []
   \<and> add_sample (add_samples (WeatherData_init ''2024-01-02'') [(20, ''Clear'', 0, 0)])
         (245 / 10) ''Rain'' 2 0 =
       (add_sample ((add_samples (WeatherData_init ''2024-01-02'') [(20, ''Clear'', 0, 0)])
           \<lparr>samples := [last (samples
              (add_samples (WeatherData_init ''2024-01-02'') [(20, ''Clear'', 0, 0)]))]\<rparr>)
         (245 / 10) ''Rain'' 2 0)
         \<lparr>samples := samples (add_samples (WeatherData_init ''2024-01-02'')
              [(20, ''Clear'', 0, 0)]) @ [(245 / 10, ''Rain'')]\<rparr>"
proof -
  have ne: "samples (add_samples (WeatherData_init ''2024-01-02'') [(20, ''Clear'', 0, 0)]) \<noteq> []"
    by (simp add: add_sample_def WeatherData_init_def)
  show ?thesis
    using ne last_sample_refinement [where d = "''2024-01-02''"
        and xs = "[(20, ''Clear'', 0, 0), (245 / 10, ''Rain'', 2, 0)]"
        and w = "add_samples (WeatherData_init ''2024-01-02'') [(20, ''Clear'', 0, 0)]"
        and ss = "[]" and t = "245 / 10" and c = "''Rain''" and r = 2 and s = 0]
    by blast
qed

section \<open>Properties of WeatherForecast\<close>

subsection \<open>The effect of one pass of the loop\<close>

lemma process_forecast_today:
  "forecast_date local_date fc = Some today_str \<Longrightarrow>
   process_forecast local_date today_str self fc = Inr self"
  by (cases "dt fc") (simp_all add: process_forecast_def forecast_date_def)

lemma process_forecast_other_day:
  assumes "forecast_date local_date fc = Some d" and "d \<noteq> today_str"
    and "main_temp fc = Some tmp" and "weather fc = Some (Some wm # rest)"
    and "main_humidity fc = Some h"
  shows "process_forecast local_date today_str self fc =
     Inr (self\<lparr>max_humidity := max (max_humidity self) h,
               daily_data :=
                 AList.update d
                   (add_sample
                      (case map_of (daily_data self) d of
                         None \<Rightarrow> WeatherData_init d | Some w \<Rightarrow> w)
                      tmp wm
                      (case rain_3h fc of None \<Rightarrow> 0 | Some r \<Rightarrow> r)
                      (case snow_3h fc of None \<Rightarrow> 0 | Some s \<Rightarrow> s))
                   (daily_data self)\<rparr>)"
proof -
  obtain ts where ts: "dt fc = Some ts" "local_date ts = Some d"
    using assms(1) by (cases "dt fc") (simp_all add: forecast_date_def)
  show ?thesis
  proof (cases "map_of (daily_data self) d")
    case None
    with ts assms(2-) show ?thesis
      by (simp add: process_forecast_def Let_def update_conv')
  next
    case (Some w)
    with ts assms(2-) show ?thesis
      by (simp add: process_forecast_def Let_def)
  qed
qed

lemma process_forecast_Inr:
  assumes "process_forecast local_date today_str self fc = Inr self'"
  obtains (today) "forecast_date local_date fc = Some today_str" and "self' = self"
  | (other) d tmp wm rest h where "forecast_date local_date fc = Some d" and "d \<noteq> today_str"
      and "main_temp fc = Some tmp" and "weather fc = Some (Some wm # rest)"
      and "main_humidity fc = Some h"
  using assms
  by (auto simp: process_forecast_def forecast_date_def Let_def
      split: option.splits list.splits if_splits)

lemma process_forecasts_append:
  "process_forecasts local_date today_str self (xs @ ys) =
     (case process_forecasts local_date today_str self xs of
        Inl e \<Rightarrow> Inl e
      | Inr self' \<Rightarrow> process_forecasts local_date today_str self' ys)"
  by (induction xs arbitrary: self) (simp_all split: sum.splits)

lemma process_forecasts_all_today:
  "\<forall>fc\<in>set fcs. forecast_date local_date fc = Some today_str \<Longrightarrow>
   process_forecasts local_date today_str self fcs = Inr self"
  by (induction fcs) (simp_all add: process_forecast_today)

lemma main_Some:
  assumes "main local_date today_str upper cty cntry key response = Inr (Some rep)"
  obtains name fcs self' where
    "response = Some \<lparr>city_name = Some name, forecast_list = Some fcs\<rparr>"
    and "process_forecasts local_date today_str
           ((WeatherForecast_init key cty cntry)\<lparr>location_name := name\<rparr>) fcs = Inr self'"
    and "rep = generate_report upper self'"
proof -
  from assms obtain data name fcs self' where
    "response = Some data" "city_name data = Some name" "forecast_list data = Some fcs"
    and run: "process_forecasts local_date today_str
           ((WeatherForecast_init key cty cntry)\<lparr>location_name := name\<rparr>) fcs = Inr self'"
    and rep: "rep = generate_report upper self'"
    by (auto simp: main_def fetch_data_def split: option.splits sum.splits error.splits)
  then have "response = Some \<lparr>city_name = Some name, forecast_list = Some fcs\<rparr>"
    by simp
  with run rep that show thesis by blast
qed

subsection \<open>The current day is skipped\<close>

text \<open>
  Claim C4. A forecast whose local date string equals that of the current day is skipped
  entirely: the pass of the loop leaves the whole object as it is (every day's rain, snow
  and transition count, and the maximum humidity), and the outcome of processing a list
  of forecasts is the same with and without such a forecast in it.
\<close>

theorem today_sample_skipped:
  assumes "dt fc = Some ts" and "local_date ts = Some today_str"
  shows "process_forecast local_date today_str self fc = Inr self
     \<and> process_forecasts local_date today_str self (xs @ [fc] @ ys) =
         process_forecasts local_date today_str self (xs @ ys)"
proof -
  have d: "forecast_date local_date fc = Some today_str"
    using assms by (simp add: forecast_date_def)
  have step: "process_forecast local_date today_str s fc = Inr s" for s
    by (rule process_forecast_today [OF d])
  have "process_forecasts local_date today_str self (xs @ [fc] @ ys) =
        process_forecasts local_date today_str self (xs @ ys)"
    by (simp add: process_forecasts_append step split: sum.splits)
  with step show ?thesis by simp
qed

theorem today_sample_skipped_witness:
  "dt \<lparr>dt = Some 1704100000, main_temp = Some 5, main_humidity = Some 99,
        weather = Some [Some ''Rain''], rain_3h = Some 7, snow_3h = None\<rparr> = Some 1704100000
   \<and> map_of [(1704100000, ''2024-01-01''), (1704190000, ''2024-01-02'')] (1704100000::int) =
       Some ''2024-01-01''
   \<and> process_forecast (map_of [(1704100000, ''2024-01-01''), (1704190000, ''2024-01-02'')])
        ''2024-01-01'' (WeatherForecast_init ''key'' ''Paris'' ''FR'')
        \<lparr>dt = Some 1704100000, main_temp = Some 5, main_humidity = Some 99,
          weather = Some [Some ''Rain''], rain_3h = Some 7, snow_3h = None\<rparr> =
       Inr (WeatherForecast_init ''key'' ''Paris'' ''FR'')
   \<and> process_forecasts (map_of [(1704100000, ''2024-01-01''), (1704190000, ''2024-01-02'')])
        ''2024-01-01'' (WeatherForecast_init ''key'' ''Paris'' ''FR'')
        ([] @ [\<lparr>dt = Some 1704100000, main_temp = Some 5, main_humidity = Some 99,
                weather = Some [Some ''Rain''], rain_3h = Some 7, snow_3h = None\<rparr>]
            @ [\<lparr>dt = Some 1704190000, main_temp = Some 6, main_humidity = Some 70,
                weather = Some [Some ''Clear''], rain_3h = None, snow_3h = None\<rparr>]) =
       process_forecasts (map_of [(1704100000, ''2024-01-01''), (1704190000, ''2024-01-02'')])
        ''2024-01-01'' (WeatherForecast_init ''key'' ''Paris'' ''FR'')
        ([] @ [\<lparr>dt = Some 1704190000, main_temp = Some 6, main_humidity = Some 70,
                weather = Some [Some ''Clear''], rain_3h = None, snow_3h = None\<rparr>])"
proof -
  have h1: "dt \<lparr>dt = Some 1704100000, main_temp = Some 5, main_humidity = Some 99,
        weather = Some [Some ''Rain''], rain_3h = Some 7, snow_3h = None\<rparr> = Some 1704100000"
    by simp
  have h2: "map_of [(1704100000, ''2024-01-01''), (1704190000, ''2024-01-02'')] (1704100000::int) =
       Some ''2024-01-01''"
    by simp
  show ?thesis
    using h1 h2 today_sample_skipped [
        where local_date = "map_of [(1704100000, ''2024-01-01''), (1704190000, ''2024-01-02'')]"
        and ts = 1704100000 and today_str = "''2024-01-01''"
        and fc = "\<lparr>dt = Some 1704100000, main_temp = Some 5, main_humidity = Some 99,
                weather = Some [Some ''Rain''], rain_3h = Some 7, snow_3h = None\<rparr>"
        and self = "WeatherForecast_init ''key'' ''Paris'' ''FR''" and xs = "[]"
        and ys = "[\<lparr>dt = Some 1704190000, main_temp = Some 6, main_humidity = Some 70,
                weather = Some [Some ''Clear''], rain_3h = None, snow_3h = None\<rparr>]",
        OF h1 h2]
    by blast
qed

subsection \<open>A run without data\<close>

lemma round_py_0: "round_py 0 n = 0"
  by (simp add: round_py_def round_half_even_def)

text \<open>
  Claim C5. When every forecast of the response is of the current day (in particular
  when the list is empty), so that no sample is ingested, the run is not an error: it
  yields the report with an empty \<open>forecast_details\<close>, both totals 0 and
  \<open>max_humidity_period\<close> 0.
\<close>

theorem no_data_report:
  assumes "\<forall>fc\<in>set fcs. \<exists>ts. dt fc = Some ts \<and> local_date ts = Some today_str"
  shows "main local_date today_str upper cty cntry key
           (Some \<lparr>city_name = Some name, forecast_list = Some fcs\<rparr>) =
         Inr (Some \<lparr>forecast_location_name = name, country_code = upper cntry,
                    total_rain_period_mm = 0, total_snow_period_mm = 0,
                    max_humidity_period = 0, forecast_details = []\<rparr>)"
proof -
  have "\<forall>fc\<in>set fcs. forecast_date local_date fc = Some today_str"
    using assms by (auto simp: forecast_date_def)
  then have "process_forecasts local_date today_str
               ((WeatherForecast_init key cty cntry)\<lparr>location_name := name\<rparr>) fcs =
             Inr ((WeatherForecast_init key cty cntry)\<lparr>location_name := name\<rparr>)"
    by (rule process_forecasts_all_today)
  then show ?thesis
    by (simp add: main_def fetch_data_def generate_report_def WeatherForecast_init_def round_py_0)
qed

theorem no_data_report_witness:
  "main (map_of [(1704100000, ''2024-01-01''), (1704190000, ''2024-01-02'')]) ''2024-01-01''
     id ''Paris'' ''FR'' ''key''
     (Some \<lparr>city_name = Some ''Paris'', forecast_list = Some
        [\<lparr>dt = Some 1704100000, main_temp = Some 5, main_humidity = Some 99,
          weather = Some [Some ''Rain''], rain_3h = Some 7, snow_3h = None\<rparr>]\<rparr>) =
   Inr (Some \<lparr>forecast_location_name = ''Paris'', country_code = id ''FR'',
              total_rain_period_mm = 0, total_snow_period_mm = 0,
              max_humidity_period = 0, forecast_details = []\<rparr>)"
proof -
  have h: "\<forall>fc\<in>set [\<lparr>dt = Some 1704100000, main_temp = Some 5, main_humidity = Some 99,
          weather = Some [Some ''Rain''], rain_3h = Some 7, snow_3h = None\<rparr>].
        \<exists>ts. dt fc = Some ts \<and>
          map_of [(1704100000, ''2024-01-01''), (1704190000, ''2024-01-02'')] ts =
            Some ''2024-01-01''"
    by simp
  show ?thesis
    by (rule no_data_report [
        where local_date = "map_of [(1704100000, ''2024-01-01''), (1704190000, ''2024-01-02'')]"
        and today_str = "''2024-01-01''", OF h])
qed

subsection \<open>The order of the report\<close>

lemma daily_data_ok_update:
  "daily_data_ok dd \<Longrightarrow> date w = k \<Longrightarrow> daily_data_ok (AList.update k w dd)"
proof -
  have "map (date \<circ> snd) dd = map fst dd \<Longrightarrow> date w = k \<Longrightarrow>
        map (date \<circ> snd) (AList.update k w dd) = map fst (AList.update k w dd)"
    by (induction dd) auto
  then show "daily_data_ok dd \<Longrightarrow> date w = k \<Longrightarrow> daily_data_ok (AList.update k w dd)"
    by (simp add: daily_data_ok_def distinct_update)
qed

lemma daily_data_ok_lookup:
  "daily_data_ok dd \<Longrightarrow> map_of dd k = Some w \<Longrightarrow> date w = k"
proof -
  have "map (date \<circ> snd) dd = map fst dd \<Longrightarrow> map_of dd k = Some w \<Longrightarrow> date w = k"
    by (induction dd) (auto split: if_splits)
  then show "daily_data_ok dd \<Longrightarrow> map_of dd k = Some w \<Longrightarrow> date w = k"
    by (simp add: daily_data_ok_def)
qed

lemma process_forecast_ok:
  assumes "process_forecast local_date today_str self fc = Inr self'"
    and "daily_data_ok (daily_data self)"
  shows "daily_data_ok (daily_data self')"
  using assms(1)
proof (cases rule: process_forecast_Inr)
  case today
  with assms(2) show ?thesis by simp
next
  case (other d tmp wm rest h)
  have "date (case map_of (daily_data self) d of None \<Rightarrow> WeatherData_init d | Some w \<Rightarrow> w) = d"
    using daily_data_ok_lookup [OF assms(2)]
    by (simp add: WeatherData_init_def split: option.splits)
  then show ?thesis
    using assms process_forecast_other_day [OF other, of self]
    by (auto simp: add_sample_date intro!: daily_data_ok_update)
qed

lemma process_forecasts_ok:
  "process_forecasts local_date today_str self fcs = Inr self' \<Longrightarrow>
   daily_data_ok (daily_data self) \<Longrightarrow> daily_data_ok (daily_data self')"
proof (induction fcs arbitrary: self)
  case Nil
  then show ?case by simp
next
  case (Cons fc fcs)
  then show ?case
    by (auto split: sum.splits dest: process_forecast_ok)
qed

lemma main_daily_data_ok:
  assumes "process_forecasts local_date today_str
           ((WeatherForecast_init key cty cntry)\<lparr>location_name := name\<rparr>) fcs = Inr self'"
  shows "daily_data_ok (daily_data self')"
proof -
  have "daily_data_ok (daily_data ((WeatherForecast_init key cty cntry)\<lparr>location_name := name\<rparr>))"
    by (simp add: daily_data_ok_def WeatherForecast_init_def)
  from process_forecasts_ok [OF assms this] show ?thesis .
qed

lemma distinct_map_sort_key: "distinct (map f (sort_key g xs)) = distinct (map f xs)"
  by (simp add: distinct_map)

lemma report_details_sorted_distinct:
  assumes "daily_data_ok (daily_data self)"
  shows "sorted (map date_local (forecast_details (generate_report upper self)))
     \<and> distinct (map date_local (forecast_details (generate_report upper self)))"
proof -
  let ?ws = "map snd (daily_data self)"
  have dl: "map date_local (forecast_details (generate_report upper self)) =
            map date (sort_key date ?ws)"
    by (simp add: generate_report_def to_dict_def comp_def)
  have "map (date \<circ> snd) (daily_data self) = map fst (daily_data self)"
    and "distinct (map fst (daily_data self))"
    using assms unfolding daily_data_ok_def by blast+
  then have "distinct (map date ?ws)"
    by (metis map_map)
  then have "distinct (map date (sort_key date ?ws))"
    by (simp only: distinct_map_sort_key)
  with dl show ?thesis by (simp add: sorted_sort_key)
qed

text \<open>
  Claim C6. In the report of every run, the dates \<open>date_local\<close> of \<open>forecast_details\<close> are
  in ascending order and no date occurs twice.
\<close>

theorem forecast_details_sorted_distinct:
  assumes "main local_date today_str upper cty cntry key response = Inr (Some rep)"
  shows "sorted (map date_local (forecast_details rep))
     \<and> distinct (map date_local (forecast_details rep))"
  using assms
proof (cases rule: main_Some)
  case (1 name fcs self')
  from main_daily_data_ok [OF 1(2)] show ?thesis
    unfolding 1(3) by (rule report_details_sorted_distinct)
qed

theorem forecast_details_sorted_distinct_witness:
  "main (map_of [(1704100000, ''2024-01-01''), (1704190000, ''2024-01-02''),
             (1704280000, ''2024-01-03'')]) ''2024-01-01'' id ''Paris'' ''FR'' ''key''
     (Some \<lparr>city_name = Some ''Paris'', forecast_list = Some
        [\<lparr>dt = Some 1704280000, main_temp = Some 5, main_humidity = Some 80,
          weather = Some [Some ''Rain''], rain_3h = Some 3, snow_3h = None\<rparr>,
         \<lparr>dt = Some 1704190000, main_temp = Some 6, main_humidity = Some 70,
          weather = Some [Some ''Clear''], rain_3h = None, snow_3h = None\<rparr>,
         \<lparr>dt = Some 1704280000, main_temp = Some 9, main_humidity = Some 60,
          weather = Some [Some ''Clear''], rain_3h = None, snow_3h = Some 1\<rparr>]\<rparr>) =
   Inr (Some \<lparr>forecast_location_name = ''Paris'', country_code = ''FR'',
              total_rain_period_mm = 3, total_snow_period_mm = 1,
              max_humidity_period = 80,
              forecast_details =
                [\<lparr>date_local = ''2024-01-02'', rain_cumul_mm = 0, snow_cumul_mm = 0,
                  major_transitions_count = 0\<rparr>,
                 \<lparr>date_local = ''2024-01-03'', rain_cumul_mm = 3, snow_cumul_mm = 1,
                  major_transitions_count = 1\<rparr>]\<rparr>)
   \<and> sorted (map date_local
        [\<lparr>date_local = ''2024-01-02'', rain_cumul_mm = 0, snow_cumul_mm = 0,
          major_transitions_count = 0\<rparr>,
         \<lparr>date_local = ''2024-01-03'', rain_cumul_mm = 3, snow_cumul_mm = 1,
          major_transitions_count = 1\<rparr>])
   \<and> distinct (map date_local
        [\<lparr>date_local = ''2024-01-02'', rain_cumul_mm = 0, snow_cumul_mm = 0,
          major_transitions_count = 0\<rparr>,
         \<lparr>date_local = ''2024-01-03'', rain_cumul_mm = 3, snow_cumul_mm = 1,
          major_transitions_count = 1\<rparr>])"
proof -
  have h: "main (map_of [(1704100000, ''2024-01-01''), (1704190000, ''2024-01-02''),
             (1704280000, ''2024-01-03'')]) ''2024-01-01'' id ''Paris'' ''FR'' ''key''
     (Some \<lparr>city_name = Some ''Paris'', forecast_list = Some
        [\<lparr>dt = Some 1704280000, main_temp = Some 5, main_humidity = Some 80,
          weather = Some [Some ''Rain''], rain_3h = Some 3, snow_3h = None\<rparr>,
         \<lparr>dt = Some 1704190000, main_temp = Some 6, main_humidity = Some 70,
          weather = Some [Some ''Clear''], rain_3h = None, snow_3h = None\<rparr>,
         \<lparr>dt = Some 1704280000, main_temp = Some 9, main_humidity = Some 60,
          weather = Some [Some ''Clear''], rain_3h = None, snow_3h = Some 1\<rparr>]\<rparr>) =
   Inr (Some \<lparr>forecast_location_name = ''Paris'', country_code = ''FR'',
              total_rain_period_mm = 3, total_snow_period_mm = 1,
              max_humidity_period = 80,
              forecast_details =
                [\<lparr>date_local = ''2024-01-02'', rain_cumul_mm = 0, snow_cumul_mm = 0,
                  major_transitions_count = 0\<rparr>,
                 \<lparr>date_local = ''2024-01-03'', rain_cumul_mm = 3, snow_cumul_mm = 1,
                  major_transitions_count = 1\<rparr>]\<rparr>)"
    by (simp add: main_def fetch_data_def generate_report_def WeatherForecast_init_def
      process_forecast_def WeatherData_init_def add_sample_def to_dict_def round_py_def
      round_half_even_def Let_def)
  from forecast_details_sorted_distinct [OF h] have
    "sorted (map date_local (forecast_details
       \<lparr>forecast_location_name = ''Paris'', country_code = ''FR'',
              total_rain_period_mm = 3, total_snow_period_mm = 1,
              max_humidity_period = 80,
              forecast_details =
                [\<lparr>date_local = ''2024-01-02'', rain_cumul_mm = 0, snow_cumul_mm = 0,
                  major_transitions_count = 0\<rparr>,
                 \<lparr>date_local = ''2024-01-03'', rain_cumul_mm = 3, snow_cumul_mm = 1,
                  major_transitions_count = 1\<rparr>]\<rparr>))
     \<and> distinct (map date_local (forecast_details
       \<lparr>forecast_location_name = ''Paris'', country_code = ''FR'',
              total_rain_period_mm = 3, total_snow_period_mm = 1,
              max_humidity_period = 80,
              forecast_details =
                [\<lparr>date_local = ''2024-01-02'', rain_cumul_mm = 0, snow_cumul_mm = 0,
                  major_transitions_count = 0\<rparr>,
                 \<lparr>date_local = ''2024-01-03'', rain_cumul_mm = 3, snow_cumul_mm = 1,
                  major_transitions_count = 1\<rparr>]\<rparr>))" .
  then show ?thesis using h by (simp only: report.simps) 
qed

subsection \<open>Each day has its own object\<close>

lemma filter_update_other:
  "filter (\<lambda>p. fst p \<noteq> k) (AList.update k v al) = filter (\<lambda>p. fst p \<noteq> k) al"
  by (induction al) auto

lemma process_forecast_frame:
  assumes "process_forecast local_date today_str self fc = Inr self'"
    and "forecast_date local_date fc = Some d"
  shows "self'\<lparr>daily_data := daily_data self, max_humidity := max_humidity self\<rparr> = self
    \<and> filter (\<lambda>p. fst p \<noteq> d) (daily_data self') = filter (\<lambda>p. fst p \<noteq> d) (daily_data self)
    \<and> (d' \<noteq> d \<longrightarrow> map_of (daily_data self') d' = map_of (daily_data self) d')
    \<and> (d \<noteq> today_str \<longrightarrow> map_of (daily_data self') d \<noteq> None)"
  using assms(1)
proof (cases rule: process_forecast_Inr)
  case today
  then show ?thesis using assms(2) by simp
next
  case (other d0 tmp wm rest h)
  from other(1) assms(2) have d0: "d0 = d" by simp
  note step = process_forecast_other_day [OF other, of self]
  from assms(1) step d0 show ?thesis
    by (auto simp: filter_update_other update_conv')
qed

lemma process_forecast_same_day:
  assumes "process_forecast local_date today_str s1 fc = Inr s1'"
    and "map_of (daily_data s1) d = map_of (daily_data s2) d"
    and "forecast_date local_date fc = Some d"
  shows "\<exists>s2'. process_forecast local_date today_str s2 fc = Inr s2'
           \<and> map_of (daily_data s1') d = map_of (daily_data s2') d"
  using assms(1)
proof (cases rule: process_forecast_Inr)
  case today
  with assms(2) process_forecast_today [OF today(1), of s2] show ?thesis by simp
next
  case (other d0 tmp wm rest h)
  from other(1) assms(3) have d0: "d0 = d" by simp
  from assms(1) process_forecast_other_day [OF other, of s1]
    process_forecast_other_day [OF other, of s2] assms(2) d0
  show ?thesis by (auto simp: update_conv')
qed

lemma process_forecasts_day_filter:
  assumes "process_forecasts local_date today_str s1 fcs = Inr s1'"
    and "map_of (daily_data s1) d = map_of (daily_data s2) d"
  shows "\<exists>s2'. process_forecasts local_date today_str s2
                 (filter (\<lambda>fc. forecast_date local_date fc = Some d) fcs) = Inr s2'
           \<and> map_of (daily_data s1') d = map_of (daily_data s2') d"
  using assms
proof (induction fcs arbitrary: s1 s2)
  case Nil
  then show ?case by simp
next
  case (Cons fc fcs)
  from Cons.prems(1) obtain t1 where
    step: "process_forecast local_date today_str s1 fc = Inr t1"
    and rest: "process_forecasts local_date today_str t1 fcs = Inr s1'"
    by (auto split: sum.splits)
  show ?case
  proof (cases "forecast_date local_date fc = Some d")
    case True
    from process_forecast_same_day [OF step Cons.prems(2) True] obtain t2 where
      step2: "process_forecast local_date today_str s2 fc = Inr t2"
      and eq: "map_of (daily_data t1) d = map_of (daily_data t2) d"
      by blast
    from Cons.IH [OF rest eq] True step2 show ?thesis by simp
  next
    case False
    from step obtain d0 where d0: "forecast_date local_date fc = Some d0"
      by (cases rule: process_forecast_Inr) auto
    with False have "d \<noteq> d0" by auto
    from process_forecast_frame [OF step d0, of d] this Cons.prems(2)
    have "map_of (daily_data t1) d = map_of (daily_data s2) d" by simp
    from Cons.IH [OF rest this] False show ?thesis by simp
  qed
qed

lemma daily_data_ok_filter:
  assumes "daily_data_ok dd"
  shows "filter (\<lambda>w. date w = d) (map snd dd) =
           (case map_of dd d of None \<Rightarrow> [] | Some w \<Rightarrow> [w])"
  using assms
proof (induction dd)
  case Nil
  then show ?case by simp
next
  case (Cons p dd)
  from Cons.prems have ok: "daily_data_ok dd" and key: "date (snd p) = fst p"
    and new: "fst p \<notin> fst ` set dd"
    by (simp_all add: daily_data_ok_def)
  show ?case
  proof (cases "fst p = d")
    case True
    with new have "map_of dd d = None" by (simp add: map_of_eq_None_iff)
    with Cons.IH [OF ok] True key show ?thesis by (cases p) simp
  next
    case False
    with Cons.IH [OF ok] key show ?thesis by (cases p) simp
  qed
qed

lemma report_day_entry:
  assumes "daily_data_ok (daily_data self)"
  shows "filter (\<lambda>e. date_local e = d) (forecast_details (generate_report upper self)) =
           (case map_of (daily_data self) d of None \<Rightarrow> [] | Some w \<Rightarrow> [to_dict w])"
proof -
  let ?ws = "map snd (daily_data self)"
  have "filter (\<lambda>e. date_local e = d) (forecast_details (generate_report upper self)) =
        map to_dict (filter (\<lambda>w. date w = d) (sort_key date ?ws))"
    by (simp add: generate_report_def filter_map comp_def to_dict_def)
  also have "filter (\<lambda>w. date w = d) (sort_key date ?ws) = filter (\<lambda>w. date w = d) ?ws"
    by (rule sort_key_stable)
  also have "\<dots> = (case map_of (daily_data self) d of None \<Rightarrow> [] | Some w \<Rightarrow> [w])"
    by (rule daily_data_ok_filter [OF assms])
  finally show ?thesis by (simp split: option.splits)
qed

text \<open>
  Claim C10. One pass of the loop for a forecast of a day \<open>d\<close> other than the current day
  changes nothing of the object but \<open>max_humidity\<close> and \<open>daily_data\<close>; in \<open>daily_data\<close> the
  entries of all other days are as before, in the same order, and \<open>d\<close> has an entry
  afterwards. Hence the entry of a day in the report depends only on the forecasts of
  that day, in their order: two runs whose lists of forecasts agree on the forecasts of
  day \<open>day\<close> report the same entry (date, rounded rain, rounded snow, transition count)
  for it, or both none.
\<close>

theorem day_frame:
  "(process_forecast local_date today_str self fc = Inr self' \<longrightarrow>
    forecast_date local_date fc = Some d \<longrightarrow> d \<noteq> today_str \<longrightarrow>
      self'\<lparr>daily_data := daily_data self, max_humidity := max_humidity self\<rparr> = self
      \<and> filter (\<lambda>p. fst p \<noteq> d) (daily_data self') = filter (\<lambda>p. fst p \<noteq> d) (daily_data self)
      \<and> map_of (daily_data self') d \<noteq> None)
   \<and> (main local_date today_str upper_a cty_a cntry_a key_a
         (Some \<lparr>city_name = Some name_a, forecast_list = Some fcs_a\<rparr>) = Inr (Some rep_a) \<longrightarrow>
       main local_date today_str upper_b cty_b cntry_b key_b
         (Some \<lparr>city_name = Some name_b, forecast_list = Some fcs_b\<rparr>) = Inr (Some rep_b) \<longrightarrow>
       filter (\<lambda>fc. forecast_date local_date fc = Some day) fcs_a =
         filter (\<lambda>fc. forecast_date local_date fc = Some day) fcs_b \<longrightarrow>
       filter (\<lambda>e. date_local e = day) (forecast_details rep_a) =
         filter (\<lambda>e. date_local e = day) (forecast_details rep_b))"
proof (intro conjI impI)
  assume step: "process_forecast local_date today_str self fc = Inr self'"
    and d: "forecast_date local_date fc = Some d" and nt: "d \<noteq> today_str"
  note frame = process_forecast_frame [OF step d, of d]
  show "self'\<lparr>daily_data := daily_data self, max_humidity := max_humidity self\<rparr> = self"
    using frame by blast
  show "filter (\<lambda>p. fst p \<noteq> d) (daily_data self') = filter (\<lambda>p. fst p \<noteq> d) (daily_data self)"
    using frame by blast
  show "map_of (daily_data self') d \<noteq> None"
    using frame nt by blast
next
  let ?P = "\<lambda>fc. forecast_date local_date fc = Some day"
  assume m1: "main local_date today_str upper_a cty_a cntry_a key_a
         (Some \<lparr>city_name = Some name_a, forecast_list = Some fcs_a\<rparr>) = Inr (Some rep_a)"
    and m2: "main local_date today_str upper_b cty_b cntry_b key_b
         (Some \<lparr>city_name = Some name_b, forecast_list = Some fcs_b\<rparr>) = Inr (Some rep_b)"
    and same: "filter ?P fcs_a = filter ?P fcs_b"
  let ?i1 = "(WeatherForecast_init key_a cty_a cntry_a)\<lparr>location_name := name_a\<rparr>"
  let ?i2 = "(WeatherForecast_init key_b cty_b cntry_b)\<lparr>location_name := name_b\<rparr>"
  from m1 obtain s1 where
    run1: "process_forecasts local_date today_str ?i1 fcs_a = Inr s1"
    and rep_a: "rep_a = generate_report upper_a s1"
    by (cases rule: main_Some) auto
  from m2 obtain s2 where
    run2: "process_forecasts local_date today_str ?i2 fcs_b = Inr s2"
    and rep_b: "rep_b = generate_report upper_b s2"
    by (cases rule: main_Some) auto
  have "map_of (daily_data ?i1) day = map_of (daily_data ?i1) day" by simp
  from process_forecasts_day_filter [OF run1 this] obtain t1 where
    f1: "process_forecasts local_date today_str ?i1 (filter ?P fcs_a) = Inr t1"
    and e1: "map_of (daily_data s1) day = map_of (daily_data t1) day"
    by blast
  have "map_of (daily_data ?i2) day = map_of (daily_data ?i1) day"
    by (simp add: WeatherForecast_init_def)
  from process_forecasts_day_filter [OF run2 this] obtain t2 where
    f2: "process_forecasts local_date today_str ?i1 (filter ?P fcs_b) = Inr t2"
    and e2: "map_of (daily_data s2) day = map_of (daily_data t2) day"
    by blast
  from f1 f2 same have "t1 = t2" by simp
  with e1 e2 have eq: "map_of (daily_data s1) day = map_of (daily_data s2) day" by simp
  show "filter (\<lambda>e. date_local e = day) (forecast_details rep_a) =
         filter (\<lambda>e. date_local e = day) (forecast_details rep_b)"
    unfolding rep_a rep_b
    by (simp add: report_day_entry [OF main_daily_data_ok [OF run1]]
        report_day_entry [OF main_daily_data_ok [OF run2]] eq)
qed

theorem day_frame_witness:
  "process_forecast (map_of [(1704190000, ''2024-01-02''), (1704280000, ''2024-01-03'')])
      ''2024-01-01''
      \<lparr>api_key = ''key'', city = ''Paris'', country = ''FR'',
        daily_data = [(''2024-01-03'', \<lparr>date = ''2024-01-03'', rain_mm = 3, snow_mm = 0, transitions = 0,
          samples = [(5, ''Rain'')]\<rparr>)],
        max_humidity = 80, location_name = ''Paris''\<rparr>
      \<lparr>dt = Some 1704190000, main_temp = Some 6, main_humidity = Some 70,
        weather = Some [Some ''Clear''], rain_3h = None, snow_3h = None\<rparr> =
    Inr \<lparr>api_key = ''key'', city = ''Paris'', country = ''FR'',
        daily_data = [(''2024-01-03'', \<lparr>date = ''2024-01-03'', rain_mm = 3, snow_mm = 0, transitions = 0,
          samples = [(5, ''Rain'')]\<rparr>),
          (''2024-01-02'', \<lparr>date = ''2024-01-02'', rain_mm = 0, snow_mm = 0, transitions = 0,
          samples = [(6, ''Clear'')]\<rparr>)],
        max_humidity = 80, location_name = ''Paris''\<rparr>
   \<and> forecast_date (map_of [(1704190000, ''2024-01-02''), (1704280000, ''2024-01-03'')])
      \<lparr>dt = Some 1704190000, main_temp = Some 6, main_humidity = Some 70,
        weather = Some [Some ''Clear''], rain_3h = None, snow_3h = None\<rparr> = Some ''2024-01-02''
   \<and> ''2024-01-02'' \<noteq> ''2024-01-01''
   \<and> \<lparr>api_key = ''key'', city = ''Paris'', country = ''FR'',
        daily_data = [(''2024-01-03'', \<lparr>date = ''2024-01-03'', rain_mm = 3, snow_mm = 0, transitions = 0,
          samples = [(5, ''Rain'')]\<rparr>),
          (''2024-01-02'', \<lparr>date = ''2024-01-02'', rain_mm = 0, snow_mm = 0, transitions = 0,
          samples = [(6, ''Clear'')]\<rparr>)],
        max_humidity = 80, location_name = ''Paris''\<rparr>
      \<lparr>daily_data := daily_data \<lparr>api_key = ''key'', city = ''Paris'', country = ''FR'',
        daily_data = [(''2024-01-03'', \<lparr>date = ''2024-01-03'', rain_mm = 3, snow_mm = 0, transitions = 0,
          samples = [(5, ''Rain'')]\<rparr>)],
        max_humidity = 80, location_name = ''Paris''\<rparr>,
       max_humidity := max_humidity \<lparr>api_key = ''key'', city = ''Paris'', country = ''FR'',
        daily_data = [(''2024-01-03'', \<lparr>date = ''2024-01-03'', rain_mm = 3, snow_mm = 0, transitions = 0,
          samples = [(5, ''Rain'')]\<rparr>)],
        max_humidity = 80, location_name = ''Paris''\<rparr>\<rparr> =
    \<lparr>api_key = ''key'', city = ''Paris'', country = ''FR'',
        daily_data = [(''2024-01-03'', \<lparr>date = ''2024-01-03'', rain_mm = 3, snow_mm = 0, transitions = 0,
          samples = [(5, ''Rain'')]\<rparr>)],
        max_humidity = 80, location_name = ''Paris''\<rparr>
   \<and> filter (\<lambda>p. fst p \<noteq> ''2024-01-02'') (daily_data \<lparr>api_key = ''key'', city = ''Paris'', country = ''FR'',
        daily_data = [(''2024-01-03'', \<lparr>date = ''2024-01-03'', rain_mm = 3, snow_mm = 0, transitions = 0,
          samples = [(5, ''Rain'')]\<rparr>),
          (''2024-01-02'', \<lparr>date = ''2024-01-02'', rain_mm = 0, snow_mm = 0, transitions = 0,
          samples = [(6, ''Clear'')]\<rparr>)],
        max_humidity = 80, location_name = ''Paris''\<rparr>) =
    filter (\<lambda>p. fst p \<noteq> ''2024-01-02'') (daily_data \<lparr>api_key = ''key'', city = ''Paris'', country = ''FR'',
        daily_data = [(''2024-01-03'', \<lparr>date = ''2024-01-03'', rain_mm = 3, snow_mm = 0, transitions = 0,
          samples = [(5, ''Rain'')]\<rparr>)],
        max_humidity = 80, location_name = ''Paris''\<rparr>)
   \<and> map_of (daily_data \<lparr>api_key = ''key'', city = ''Paris'', country = ''FR'',
        daily_data = [(''2024-01-03'', \<lparr>date = ''2024-01-03'', rain_mm = 3, snow_mm = 0, transitions = 0,
          samples = [(5, ''Rain'')]\<rparr>),
          (''2024-01-02'', \<lparr>date = ''2024-01-02'', rain_mm = 0, snow_mm = 0, transitions = 0,
          samples = [(6, ''Clear'')]\<rparr>)],
        max_humidity = 80, location_name = ''Paris''\<rparr>) ''2024-01-02'' \<noteq> None
   \<and> main (map_of [(1704190000, ''2024-01-02''), (1704280000, ''2024-01-03'')])
      ''2024-01-01'' id ''Paris'' ''FR'' ''key''
      (Some \<lparr>city_name = Some ''Paris'', forecast_list = Some
      [\<lparr>dt = Some 1704190000, main_temp = Some 6, main_humidity = Some 70,
        weather = Some [Some ''Clear''], rain_3h = None, snow_3h = None\<rparr>,
       \<lparr>dt = Some 1704280000, main_temp = Some 5, main_humidity = Some 80,
        weather = Some [Some ''Rain''], rain_3h = Some 3, snow_3h = None\<rparr>]\<rparr>) =
    Inr (Some \<lparr>forecast_location_name = ''Paris'', country_code = ''FR'',
        total_rain_period_mm = 3, total_snow_period_mm = 0, max_humidity_period = 80,
        forecast_details = [\<lparr>date_local = ''2024-01-02'', rain_cumul_mm = 0, snow_cumul_mm = 0,
          major_transitions_count = 0\<rparr>,
         \<lparr>date_local = ''2024-01-03'', rain_cumul_mm = 3, snow_cumul_mm = 0,
          major_transitions_count = 0\<rparr>]\<rparr>)
   \<and> main (map_of [(1704190000, ''2024-01-02''), (1704280000, ''2024-01-03'')])
      ''2024-01-01'' id ''Lyon'' ''FR'' ''key''
      (Some \<lparr>city_name = Some ''Lyon'', forecast_list = Some
      [\<lparr>dt = Some 1704190000, main_temp = Some 6, main_humidity = Some 70,
        weather = Some [Some ''Clear''], rain_3h = None, snow_3h = None\<rparr>]\<rparr>) =
    Inr (Some \<lparr>forecast_location_name = ''Lyon'', country_code = ''FR'',
        total_rain_period_mm = 0, total_snow_period_mm = 0, max_humidity_period = 70,
        forecast_details = [\<lparr>date_local = ''2024-01-02'', rain_cumul_mm = 0, snow_cumul_mm = 0,
          major_transitions_count = 0\<rparr>]\<rparr>)
   \<and> filter (\<lambda>fc. forecast_date (map_of [(1704190000, ''2024-01-02''), (1704280000, ''2024-01-03'')]) fc = Some ''2024-01-02'')
      [\<lparr>dt = Some 1704190000, main_temp = Some 6, main_humidity = Some 70,
        weather = Some [Some ''Clear''], rain_3h = None, snow_3h = None\<rparr>,
       \<lparr>dt = Some 1704280000, main_temp = Some 5, main_humidity = Some 80,
        weather = Some [Some ''Rain''], rain_3h = Some 3, snow_3h = None\<rparr>] =
    filter (\<lambda>fc. forecast_date (map_of [(1704190000, ''2024-01-02''), (1704280000, ''2024-01-03'')]) fc = Some ''2024-01-02'')
      [\<lparr>dt = Some 1704190000, main_temp = Some 6, main_humidity = Some 70,
        weather = Some [Some ''Clear''], rain_3h = None, snow_3h = None\<rparr>]
   \<and> filter (\<lambda>e. date_local e = ''2024-01-02'') (forecast_details \<lparr>forecast_location_name = ''Paris'', country_code = ''FR'',
        total_rain_period_mm = 3, total_snow_period_mm = 0, max_humidity_period = 80,
        forecast_details = [\<lparr>date_local = ''2024-01-02'', rain_cumul_mm = 0, snow_cumul_mm = 0,
          major_transitions_count = 0\<rparr>,
         \<lparr>date_local = ''2024-01-03'', rain_cumul_mm = 3, snow_cumul_mm = 0,
          major_transitions_count = 0\<rparr>]\<rparr>) =
    filter (\<lambda>e. date_local e = ''2024-01-02'') (forecast_details \<lparr>forecast_location_name = ''Lyon'', country_code = ''FR'',
        total_rain_period_mm = 0, total_snow_period_mm = 0, max_humidity_period = 70,
        forecast_details = [\<lparr>date_local = ''2024-01-02'', rain_cumul_mm = 0, snow_cumul_mm = 0,
          major_transitions_count = 0\<rparr>]\<rparr>)"
proof -
  have h1: "process_forecast (map_of [(1704190000, ''2024-01-02''), (1704280000, ''2024-01-03'')])
      ''2024-01-01''
      \<lparr>api_key = ''key'', city = ''Paris'', country = ''FR'',
        daily_data = [(''2024-01-03'', \<lparr>date = ''2024-01-03'', rain_mm = 3, snow_mm = 0, transitions = 0,
          samples = [(5, ''Rain'')]\<rparr>)],
        max_humidity = 80, location_name = ''Paris''\<rparr>
      \<lparr>dt = Some 1704190000, main_temp = Some 6, main_humidity = Some 70,
        weather = Some [Some ''Clear''], rain_3h = None, snow_3h = None\<rparr> =
    Inr \<lparr>api_key = ''key'', city = ''Paris'', country = ''FR'',
        daily_data = [(''2024-01-03'', \<lparr>date = ''2024-01-03'', rain_mm = 3, snow_mm = 0, transitions = 0,
          samples = [(5, ''Rain'')]\<rparr>),
          (''2024-01-02'', \<lparr>date = ''2024-01-02'', rain_mm = 0, snow_mm = 0, transitions = 0,
          samples = [(6, ''Clear'')]\<rparr>)],
        max_humidity = 80, location_name = ''Paris''\<rparr>"
    by (simp add: main_def fetch_data_def generate_report_def WeatherForecast_init_def
        process_forecast_def WeatherData_init_def add_sample_def to_dict_def round_py_def
        round_half_even_def forecast_date_def Let_def)
  have h2: "forecast_date (map_of [(1704190000, ''2024-01-02''), (1704280000, ''2024-01-03'')])
      \<lparr>dt = Some 1704190000, main_temp = Some 6, main_humidity = Some 70,
        weather = Some [Some ''Clear''], rain_3h = None, snow_3h = None\<rparr> = Some ''2024-01-02''"
    by (simp add: main_def fetch_data_def generate_report_def WeatherForecast_init_def
        process_forecast_def WeatherData_init_def add_sample_def to_dict_def round_py_def
        round_half_even_def forecast_date_def Let_def)
  have h3: "''2024-01-02'' \<noteq> ''2024-01-01''"
    by (simp add: main_def fetch_data_def generate_report_def WeatherForecast_init_def
        process_forecast_def WeatherData_init_def add_sample_def to_dict_def round_py_def
        round_half_even_def forecast_date_def Let_def)
  have h4: "main (map_of [(1704190000, ''2024-01-02''), (1704280000, ''2024-01-03'')])
      ''2024-01-01'' id ''Paris'' ''FR'' ''key''
      (Some \<lparr>city_name = Some ''Paris'', forecast_list = Some
      [\<lparr>dt = Some 1704190000, main_temp = Some 6, main_humidity = Some 70,
        weather = Some [Some ''Clear''], rain_3h = None, snow_3h = None\<rparr>,
       \<lparr>dt = Some 1704280000, main_temp = Some 5, main_humidity = Some 80,
        weather = Some [Some ''Rain''], rain_3h = Some 3, snow_3h = None\<rparr>]\<rparr>) =
    Inr (Some \<lparr>forecast_location_name = ''Paris'', country_code = ''FR'',
        total_rain_period_mm = 3, total_snow_period_mm = 0, max_humidity_period = 80,
        forecast_details = [\<lparr>date_local = ''2024-01-02'', rain_cumul_mm = 0, snow_cumul_mm = 0,
          major_transitions_count = 0\<rparr>,
         \<lparr>date_local = ''2024-01-03'', rain_cumul_mm = 3, snow_cumul_mm = 0,
          major_transitions_count = 0\<rparr>]\<rparr>)"
    by (simp add: main_def fetch_data_def generate_report_def WeatherForecast_init_def
        process_forecast_def WeatherData_init_def add_sample_def to_dict_def round_py_def
        round_half_even_def forecast_date_def Let_def)
  have h5: "main (map_of [(1704190000, ''2024-01-02''), (1704280000, ''2024-01-03'')])
      ''2024-01-01'' id ''Lyon'' ''FR'' ''key''
      (Some \<lparr>city_name = Some ''Lyon'', forecast_list = Some
      [\<lparr>dt = Some 1704190000, main_temp = Some 6, main_humidity = Some 70,
        weather = Some [Some ''Clear''], rain_3h = None, snow_3h = None\<rparr>]\<rparr>) =
    Inr (Some \<lparr>forecast_location_name = ''Lyon'', country_code = ''FR'',
        total_rain_period_mm = 0, total_snow_period_mm = 0, max_humidity_period = 70,
        forecast_details = [\<lparr>date_local = ''2024-01-02'', rain_cumul_mm = 0, snow_cumul_mm = 0,
          major_transitions_count = 0\<rparr>]\<rparr>)"
    by (simp add: main_def fetch_data_def generate_report_def WeatherForecast_init_def
        process_forecast_def WeatherData_init_def add_sample_def to_dict_def round_py_def
        round_half_even_def forecast_date_def Let_def)
  have h6: "filter (\<lambda>fc. forecast_date (map_of [(1704190000, ''2024-01-02''), (1704280000, ''2024-01-03'')]) fc = Some ''2024-01-02'')
      [\<lparr>dt = Some 1704190000, main_temp = Some 6, main_humidity = Some 70,
        weather = Some [Some ''Clear''], rain_3h = None, snow_3h = None\<rparr>,
       \<lparr>dt = Some 1704280000, main_temp = Some 5, main_humidity = Some 80,
        weather = Some [Some ''Rain''], rain_3h = Some 3, snow_3h = None\<rparr>] =
    filter (\<lambda>fc. forecast_date (map_of [(1704190000, ''2024-01-02''), (1704280000, ''2024-01-03'')]) fc = Some ''2024-01-02'')
      [\<lparr>dt = Some 1704190000, main_temp = Some 6, main_humidity = Some 70,
        weather = Some [Some ''Clear''], rain_3h = None, snow_3h = None\<rparr>]"
    by (simp add: main_def fetch_data_def generate_report_def WeatherForecast_init_def
        process_forecast_def WeatherData_init_def add_sample_def to_dict_def round_py_def
        round_half_even_def forecast_date_def Let_def)
  note step = day_frame [THEN conjunct1, rule_format, OF h1 h2 h3]
  note runs = day_frame [THEN conjunct2, rule_format, OF h4 h5 h6]
  show ?thesis
    using h1 h2 h3 h4 h5 h6 step runs by blast
qed

section \<open>Properties of the binary64 rounding\<close>

subsection \<open>The exponent\<close>

lemma ilog2_ge1:
  fixes a :: real
  assumes "1 \<le> a"
  shows "2 powi (bitlen \<lfloor>a\<rfloor> - 1) \<le> a \<and> a < 2 powi (bitlen \<lfloor>a\<rfloor> - 1 + 1)"
proof -
  let ?n = "\<lfloor>a\<rfloor>"
  have n: "0 < ?n" using assms by simp
  from bitlen_bounds [OF n] have lo: "2 ^ nat (bitlen ?n - 1) \<le> ?n" and hi: "?n < 2 ^ nat (bitlen ?n)"
    by simp_all
  have b1: "1 \<le> bitlen ?n" using n by (simp add: bitlen_alt_def)
  have "(2::real) powi (bitlen ?n - 1) = 2 ^ nat (bitlen ?n - 1)"
    using b1 by (simp add: power_int_nonneg_exp)
  also have "\<dots> \<le> of_int ?n"
    using lo by (simp only: numeral_power_le_of_int_cancel_iff)
  also have "\<dots> \<le> a" by simp
  finally have A: "2 powi (bitlen ?n - 1) \<le> a" .
  have "?n + 1 \<le> 2 ^ nat (bitlen ?n)" using hi by simp
  then have "(of_int (?n + 1) :: real) \<le> 2 ^ nat (bitlen ?n)"
    by (simp only: of_int_le_numeral_power_cancel_iff)
  moreover have "a < of_int (?n + 1)" by linarith
  ultimately have "a < 2 ^ nat (bitlen ?n)" by linarith
  moreover have "(2::real) powi (bitlen ?n - 1 + 1) = 2 ^ nat (bitlen ?n)"
    using b1 by (simp add: power_int_nonneg_exp)
  ultimately have B: "a < 2 powi (bitlen ?n - 1 + 1)" by simp
  from A B show ?thesis ..
qed

lemma ilog2_lt1:
  fixes a :: real
  assumes "0 < a" "a < 1"
  shows "2 powi (- bitlen (\<lceil>1 / a\<rceil> - 1)) \<le> a \<and> a < 2 powi (- bitlen (\<lceil>1 / a\<rceil> - 1) + 1)"
proof -
  let ?y = "1 / a"
  let ?m = "\<lceil>?y\<rceil>"
  let ?k = "bitlen (?m - 1)"
  have y1: "1 < ?y" using assms by simp
  then have m2: "2 \<le> ?m" by (simp add: le_ceiling_iff)
  then have m1: "0 < ?m - 1" by simp
  from bitlen_bounds [OF m1] have lo: "2 ^ nat (?k - 1) \<le> ?m - 1" and hi: "?m - 1 < 2 ^ nat ?k"
    by simp_all
  have k1: "1 \<le> ?k" using m1 by (simp add: bitlen_alt_def)
  have "?m \<le> 2 ^ nat ?k" using hi by simp
  then have "(of_int ?m :: real) \<le> 2 ^ nat ?k"
    by (simp only: of_int_le_numeral_power_cancel_iff)
  moreover have "?y \<le> of_int ?m" by (rule le_of_int_ceiling)
  ultimately have yle: "?y \<le> 2 ^ nat ?k" by linarith
  have "(2::real) powi (- ?k) = 1 / 2 ^ nat ?k"
    using k1 by (simp add: power_int_minus_divide power_int_nonneg_exp)
  also have "\<dots> \<le> a"
    using yle assms(1) by (simp add: field_simps)
  finally have A: "2 powi (- ?k) \<le> a" .
  have "(2 ^ nat (?k - 1) :: real) \<le> of_int (?m - 1)"
    using lo by (simp only: numeral_power_le_of_int_cancel_iff)
  moreover have "of_int (?m - 1) < ?y" by linarith
  ultimately have ygt: "2 ^ nat (?k - 1) < ?y" by linarith
  have "(2::real) powi (- ?k + 1) = 1 / 2 ^ nat (?k - 1)"
  proof -
    have "- ?k + 1 = - (?k - 1)" by simp
    then show ?thesis using k1 by (simp only: power_int_minus_divide) (simp add: power_int_nonneg_exp)
  qed
  moreover have "a < 1 / 2 ^ nat (?k - 1)"
    using ygt assms(1) by (simp add: field_simps)
  ultimately have B: "a < 2 powi (- ?k + 1)" by simp
  from A B show ?thesis ..
qed

lemma ilog2_bounds:
  assumes "0 < a"
  shows "2 powi ilog2 a \<le> a \<and> a < 2 powi (ilog2 a + 1)"
proof (cases "1 \<le> a")
  case True
  with ilog2_ge1 [OF True] show ?thesis by (simp add: ilog2_def)
next
  case False
  then have "a < 1" by simp
  from ilog2_lt1 [OF assms this] False show ?thesis by (simp add: ilog2_def)
qed

lemma ilog2_eqI:
  assumes "2 powi e \<le> a" and "a < 2 powi (e + 1)"
  shows "ilog2 a = e"
proof -
  have pos: "0 < a"
  proof -
    have "(0::real) < 2 powi e" by (simp add: zero_less_power_int)
    with assms(1) show ?thesis by linarith
  qed
  from ilog2_bounds [OF pos] have lo: "2 powi ilog2 a \<le> a" and hi: "a < 2 powi (ilog2 a + 1)"
    by simp_all
  have mono: "f \<le> g \<Longrightarrow> (2::real) powi f \<le> 2 powi g" for f g :: int
    by (rule power_int_increasing) simp_all
  have "(2::real) powi e < 2 powi (ilog2 a + 1)" using assms(1) hi by linarith
  then have 1: "e < ilog2 a + 1" using mono [of "ilog2 a + 1" e] by linarith
  have "(2::real) powi ilog2 a < 2 powi (e + 1)" using lo assms(2) by linarith
  then have 2: "ilog2 a < e + 1" using mono [of "e + 1" "ilog2 a"] by linarith
  from 1 2 show ?thesis by linarith
qed

subsection \<open>Rounding in the normal range\<close>

lemma round_half_even_error: "\<bar>of_int (round_half_even x) - x\<bar> \<le> 1 / 2"
proof -
  have "of_int \<lfloor>x\<rfloor> \<le> x" and "x < of_int \<lfloor>x\<rfloor> + 1"
    by linarith+
  then show ?thesis
    by (auto simp: round_half_even_def Let_def)
qed

lemma round_half_even_bound:
  assumes "\<bar>z\<bar> \<le> of_int n"
  shows "\<bar>round_half_even z\<bar> \<le> n"
proof -
  have "\<bar>of_int (round_half_even z) - z\<bar> \<le> 1 / 2" by (rule round_half_even_error)
  with assms have "\<bar>of_int (round_half_even z) :: real\<bar> \<le> of_int n + 1 / 2" by linarith
  then have "(of_int \<bar>round_half_even z\<bar> :: real) < of_int (n + 1)" by simp
  then have "\<bar>round_half_even z\<bar> < n + 1" by (simp only: of_int_less_iff)
  then show ?thesis by simp
qed

text \<open>
  A certificate for a rounding: when \<open>2 ^ e \<le> \<bar>x\<bar> < 2 ^ (e + 1)\<close> in the normal range,
  \<open>binary64 x\<close> is the multiple of \<open>2 ^ (e - 52)\<close> nearest to \<open>x\<close>, unless that is
  \<open>2 ^ 1024\<close>.
\<close>

lemma binary64_eqI_top:
  assumes lo: "2 powi e \<le> \<bar>x\<bar>" and hi: "\<bar>x\<bar> < 2 powi (e + 1)"
    and emin: "- 1022 \<le> e"
    and y: "y = of_int (round_half_even (x / 2 powi (e - 52))) * 2 powi (e - 52)"
    and fin: "\<bar>y\<bar> < 2 ^ 1024"
  shows "binary64 x = Finite y"
proof -
  have p: "(0::real) < 2 powi k" for k :: int by (simp add: zero_less_power_int)
  have x0: "x \<noteq> 0"
  proof
    assume "x = 0"
    with lo have "(2::real) powi e \<le> 0" by simp
    with p [of e] show False by linarith
  qed
  have e: "ilog2 \<bar>x\<bar> = e" by (rule ilog2_eqI [OF lo hi])
  have q: "max (ilog2 \<bar>x\<bar> - 52) (- 1074) = e - 52" using e emin by simp
  have "\<not> 2 ^ 1024 \<le> \<bar>y\<bar>" using fin by simp
  moreover have "y = of_int (round_half_even (x / 2 powi (max (ilog2 \<bar>x\<bar> - 52) (- 1074))))
      * 2 powi (max (ilog2 \<bar>x\<bar> - 52) (- 1074))"
    unfolding q by (rule y)
  ultimately show ?thesis using x0 by (simp add: binary64_def Let_def)
qed

lemma binary64_eqI:
  assumes lo: "2 powi e \<le> \<bar>x\<bar>" and hi: "\<bar>x\<bar> < 2 powi (e + 1)"
    and emin: "- 1022 \<le> e" and emax: "e < 1023"
    and y: "y = of_int (round_half_even (x / 2 powi (e - 52))) * 2 powi (e - 52)"
  shows "binary64 x = Finite y"
proof (rule binary64_eqI_top [OF lo hi emin y])
  have p: "(0::real) < 2 powi k" for k :: int by (simp add: zero_less_power_int)
  define P :: real where "P = 2 powi (e - 52)"
  define m where "m = round_half_even (x / P)"
  have P0: "0 < P" unfolding P_def by (rule p)
  have split: "(2::real) powi (e + 1) = 2 ^ 53 * P"
  proof -
    have "e + 1 = 53 + (e - 52)" by simp
    then have "(2::real) powi (e + 1) = 2 powi (53 + (e - 52))" by (rule arg_cong)
    also have "\<dots> = 2 powi 53 * 2 powi (e - 52)" by (rule power_int_add) simp
    finally show ?thesis unfolding P_def by simp
  qed
  have hi': "\<bar>x\<bar> < 2 ^ 53 * P" using hi unfolding split .
  have "\<bar>x / P\<bar> = \<bar>x\<bar> / P" using P0 by simp
  also have "\<dots> < 2 ^ 53" using hi' P0 by (simp add: field_simps)
  finally have "\<bar>x / P\<bar> \<le> of_int (2 ^ 53)" by simp
  then have m: "\<bar>m\<bar> \<le> 2 ^ 53" unfolding m_def by (rule round_half_even_bound)
  have yP: "y = of_int m * P" unfolding m_def P_def by (rule y)
  have "\<bar>y\<bar> = of_int \<bar>m\<bar> * P" using P0 by (simp add: yP abs_mult)
  also have "\<dots> \<le> of_int (2 ^ 53) * P"
  proof (rule mult_right_mono)
    show "(of_int \<bar>m\<bar> :: real) \<le> of_int (2 ^ 53)" using m by (simp only: of_int_le_iff)
    show "0 \<le> P" using P0 by simp
  qed
  also have "\<dots> = 2 powi (e + 1)" unfolding split by simp
  also have "\<dots> \<le> 2 powi 1023" using emax by (intro power_int_increasing) simp_all
  also have "\<dots> < 2 ^ 1024" by simp
  finally show "\<bar>y\<bar> < 2 ^ 1024" .
qed

lemma binary64_0: "binary64 0 = Finite 0"
  by (simp add: binary64_def)

subsection \<open>Overflow\<close>

lemma round_half_even_lower:
  assumes "of_int n \<le> z"
  shows "n \<le> round_half_even z"
proof -
  have "\<bar>of_int (round_half_even z) - z\<bar> \<le> 1 / 2" by (rule round_half_even_error)
  with assms have "(of_int n :: real) - 1 / 2 \<le> of_int (round_half_even z)" by linarith
  then have "(of_int (n - 1) :: real) < of_int (round_half_even z)" by simp
  then have "n - 1 < round_half_even z" by (simp only: of_int_less_iff)
  then show ?thesis by simp
qed

text \<open>A sum or a literal of magnitude \<open>2 ^ 1024\<close> or more is an infinity.\<close>

lemma binary64_overflow:
  assumes "2 ^ 1024 \<le> x"
  shows "binary64 x = PInf"
proof -
  have p: "(0::real) < 2 powi k" for k :: int by (simp add: zero_less_power_int)
  have x0: "0 < x" using assms by (rule less_le_trans [rotated]) simp
  define e where "e = ilog2 \<bar>x\<bar>"
  from ilog2_bounds [of "\<bar>x\<bar>"] x0 have lo: "2 powi e \<le> x" and hi: "x < 2 powi (e + 1)"
    by (simp_all add: e_def)
  have e: "1024 \<le> e"
  proof (rule ccontr)
    assume "\<not> 1024 \<le> e"
    then have "e + 1 \<le> 1024" by simp
    then have "(2::real) powi (e + 1) \<le> 2 powi 1024" by (intro power_int_increasing) simp_all
    with hi assms show False by simp
  qed
  define P :: real where "P = 2 powi (e - 52)"
  define m where "m = round_half_even (x / P)"
  have P0: "0 < P" unfolding P_def by (rule p)
  have q: "max (ilog2 \<bar>x\<bar> - 52) (- 1074) = e - 52" using e by (simp add: e_def)
  have split: "(2::real) powi e = 2 ^ 52 * P"
  proof -
    have "e = 52 + (e - 52)" by simp
    then have "(2::real) powi e = 2 powi (52 + (e - 52))" by (rule arg_cong)
    also have "\<dots> = 2 powi 52 * 2 powi (e - 52)" by (rule power_int_add) simp
    finally show ?thesis unfolding P_def by simp
  qed
  have "2 ^ 52 * P \<le> x" using lo unfolding split .
  then have "(of_int (2 ^ 52) :: real) \<le> x / P" using P0 by (simp add: field_simps)
  then have m: "2 ^ 52 \<le> m" unfolding m_def by (rule round_half_even_lower)
  have "(2::real) ^ 1024 = 2 powi 1024" by simp
  also have "\<dots> \<le> 2 powi e" using e by (intro power_int_increasing) simp_all
  also have "\<dots> = of_int (2 ^ 52) * P" unfolding split by simp
  also have "\<dots> \<le> of_int m * P"
  proof (rule mult_right_mono)
    show "(of_int (2 ^ 52) :: real) \<le> of_int m" using m by (simp only: of_int_le_iff)
    show "0 \<le> P" using P0 by simp
  qed
  finally have big: "2 ^ 1024 \<le> of_int m * P" .
  have m0: "0 \<le> m" using m by (rule order_trans [rotated]) simp
  have "2 ^ 1024 \<le> \<bar>of_int m * P\<bar>" using big by linarith
  then have "(2::real) ^ 1024 \<le> \<bar>of_int (round_half_even (x / 2 powi (max (ilog2 \<bar>x\<bar> - 52) (- 1074))))
      * 2 powi (max (ilog2 \<bar>x\<bar> - 52) (- 1074))\<bar>"
    unfolding q m_def P_def .
  then show ?thesis using x0 by (simp add: binary64_def Let_def)
qed

lemma binary64_1e308:
  "binary64 (10 ^ 308) = Finite
     100000000000000001097906362944045541740492309677311846336810682903157585404911491537163328978494688899061249669721172515611590283743140088328307009198146046031271664502933027185697489699588559043338384466165001178426897626212945177628091195786707458122783970171784415105291802893207873272974885715430223118336"
  by (rule binary64_eqI_top [where e = "1023"]) (simp_all add: round_half_even_def Let_def)

text \<open>In Python \<^verbatim>\<open>1e308 + 1e308\<close> is \<^verbatim>\<open>inf\<close>.\<close>

lemma add_1e308: "float_add (binary64 (10 ^ 308)) (binary64 (10 ^ 308)) = PInf"
  unfolding binary64_1e308
  by (simp only: float_add.simps) (rule binary64_overflow, simp)

section \<open>Properties of WeatherData on floats\<close>

subsection \<open>The effect of one call of \<^verbatim>\<open>add_sample\<close>\<close>

lemma add_sample_fl_rain_mm:
  "rain_mm_fl (add_sample_fl w t c r s) = float_add (rain_mm_fl w) r"
  by (simp add: add_sample_fl_def Let_def split: prod.splits)

lemma add_sample_fl_snow_mm:
  "snow_mm_fl (add_sample_fl w t c r s) = float_add (snow_mm_fl w) s"
  by (simp add: add_sample_fl_def Let_def split: prod.splits)

lemma add_sample_fl_samples: "samples_fl (add_sample_fl w t c r s) = samples_fl w @ [(t, c)]"
  by (simp add: add_sample_fl_def Let_def split: prod.splits)

lemma add_sample_fl_transitions:
  "transitions_fl (add_sample_fl w t c r s) =
     transitions_fl w +
       (if samples_fl w \<noteq> [] \<and> c \<noteq> snd (last (samples_fl w))
           \<and> float_gt (float_abs (float_sub t (fst (last (samples_fl w))))) (Finite 3)
        then 1 else 0)"
  by (simp add: add_sample_fl_def Let_def split: prod.splits)

subsection \<open>Sequences of calls\<close>

lemma add_samples_fl_append:
  "add_samples_fl w (xs @ ys) = add_samples_fl (add_samples_fl w xs) ys"
  by (induction w xs rule: add_samples_fl.induct) simp_all

lemma add_samples_fl_samples:
  "samples_fl (add_samples_fl w xs) = samples_fl w @ map (\<lambda>(t, c, r, s). (t, c)) xs"
  by (induction w xs rule: add_samples_fl.induct) (simp_all add: add_sample_fl_samples)

lemma add_samples_fl_rain_mm:
  "rain_mm_fl (add_samples_fl w xs) = foldl float_add (rain_mm_fl w) (map (\<lambda>(t, c, r, s). r) xs)"
  by (induction w xs rule: add_samples_fl.induct) (simp_all add: add_sample_fl_rain_mm)

lemma add_samples_fl_snow_mm:
  "snow_mm_fl (add_samples_fl w xs) = foldl float_add (snow_mm_fl w) (map (\<lambda>(t, c, r, s). s) xs)"
  by (induction w xs rule: add_samples_fl.induct) (simp_all add: add_sample_fl_snow_mm)

text \<open>
  What a further run of samples adds to the counter depends only on the last sample
  seen so far.
\<close>

lemma add_samples_fl_transitions_shift:
  "samples_fl w \<noteq> [] \<Longrightarrow> samples_fl w' \<noteq> [] \<Longrightarrow> last (samples_fl w) = last (samples_fl w') \<Longrightarrow>
   transitions_fl (add_samples_fl w zs) - transitions_fl w =
   transitions_fl (add_samples_fl w' zs) - transitions_fl w'"
proof (induction zs arbitrary: w w')
  case Nil
  show ?case by simp
next
  case (Cons z zs)
  obtain t c r s where z: "z = (t, c, r, s)" by (cases z) auto
  let ?v = "add_sample_fl w t c r s" and ?v' = "add_sample_fl w' t c r s"
  have "transitions_fl (add_samples_fl ?v zs) - transitions_fl ?v =
        transitions_fl (add_samples_fl ?v' zs) - transitions_fl ?v'"
    by (rule Cons.IH) (simp_all add: add_sample_fl_samples)
  moreover have "transitions_fl ?v - transitions_fl w = transitions_fl ?v' - transitions_fl w'"
    using Cons.prems by (simp add: add_sample_fl_transitions)
  ultimately show ?case by (simp add: z)
qed

lemma foldl_float_add_exact:
  "sums_exact s rs \<Longrightarrow> foldl float_add (Finite s) (map Finite rs) = Finite (s + sum_list rs)"
  by (induction rs arbitrary: s) (simp_all add: add.assoc)

subsection \<open>Some values\<close>

text \<open>
  The floats of the decimal literals \<^verbatim>\<open>0.1\<close>, \<^verbatim>\<open>0.2\<close>, \<^verbatim>\<open>3.1\<close>, \<^verbatim>\<open>13.1\<close> and \<^verbatim>\<open>16.1\<close>, and
  the differences and sums used below. In Python \<^verbatim>\<open>3.1 - 0.1\<close> is \<^verbatim>\<open>3.0\<close>,
  \<^verbatim>\<open>16.1 - 13.1\<close> is \<^verbatim>\<open>3.0000000000000018\<close> and \<^verbatim>\<open>0.1 + 0.2\<close> is
  \<^verbatim>\<open>0.30000000000000004\<close>.
\<close>

lemma binary64_0_1: "binary64 (1 / 10) = Finite (3602879701896397 / 36028797018963968)"
  by (rule binary64_eqI [where e = "- 4"]) (simp_all add: round_half_even_def Let_def)

lemma binary64_0_2: "binary64 (2 / 10) = Finite (3602879701896397 / 18014398509481984)"
  by (rule binary64_eqI [where e = "- 3"]) (simp_all add: round_half_even_def Let_def)

lemma binary64_3_1: "binary64 (31 / 10) = Finite (6980579422424269 / 2251799813685248)"
  by (rule binary64_eqI [where e = "1"]) (simp_all add: round_half_even_def Let_def)

lemma binary64_13_1: "binary64 (131 / 10) = Finite (7374644389819187 / 562949953421312)"
  by (rule binary64_eqI [where e = "3"]) (simp_all add: round_half_even_def Let_def)

lemma binary64_16_1: "binary64 (161 / 10) = Finite (2265873562520781 / 140737488355328)"
  by (rule binary64_eqI [where e = "4"]) (simp_all add: round_half_even_def Let_def)

lemma sub_3_1_0_1: "float_sub (Finite (6980579422424269 / 2251799813685248)) (Finite (3602879701896397 / 36028797018963968)) = Finite 3"
  by (simp only: float_sub_def float_neg.simps float_add.simps)
    (rule binary64_eqI [where e = "1"]; simp add: round_half_even_def Let_def)

lemma sub_16_1_13_1: "float_sub (Finite (2265873562520781 / 140737488355328)) (Finite (7374644389819187 / 562949953421312)) = Finite (1688849860263937 / 562949953421312)"
  by (simp only: float_sub_def float_neg.simps float_add.simps)
    (rule binary64_eqI [where e = "1"]; simp add: round_half_even_def Let_def)

lemma sub_24_5_20: "float_sub (Finite (49 / 2)) (Finite 20) = Finite (9 / 2)"
  by (simp only: float_sub_def float_neg.simps float_add.simps)
    (rule binary64_eqI [where e = "2"]; simp add: round_half_even_def Let_def)

lemma sub_17_20: "float_sub (Finite 17) (Finite 20) = Finite (- 3)"
  by (simp only: float_sub_def float_neg.simps float_add.simps)
    (rule binary64_eqI [where e = "1"]; simp add: round_half_even_def Let_def)

lemma sub_23_17: "float_sub (Finite 23) (Finite 17) = Finite 6"
  by (simp only: float_sub_def float_neg.simps float_add.simps)
    (rule binary64_eqI [where e = "2"]; simp add: round_half_even_def Let_def)

lemma sub_23_20: "float_sub (Finite 23) (Finite 20) = Finite 3"
  by (simp only: float_sub_def float_neg.simps float_add.simps)
    (rule binary64_eqI [where e = "1"]; simp add: round_half_even_def Let_def)

lemma sub_22_20: "float_sub (Finite 22) (Finite 20) = Finite 2"
  by (simp only: float_sub_def float_neg.simps float_add.simps)
    (rule binary64_eqI [where e = "1"]; simp add: round_half_even_def Let_def)

lemma sub_30_22: "float_sub (Finite 30) (Finite 22) = Finite 8"
  by (simp only: float_sub_def float_neg.simps float_add.simps)
    (rule binary64_eqI [where e = "3"]; simp add: round_half_even_def Let_def)

lemma sub_30_20: "float_sub (Finite 30) (Finite 20) = Finite 10"
  by (simp only: float_sub_def float_neg.simps float_add.simps)
    (rule binary64_eqI [where e = "3"]; simp add: round_half_even_def Let_def)

lemma add_0_0_1: "float_add (Finite 0) (Finite (3602879701896397 / 36028797018963968)) = Finite (3602879701896397 / 36028797018963968)"
  by (simp only: float_add.simps)
    (rule binary64_eqI [where e = "- 4"]; simp add: round_half_even_def Let_def)

lemma add_0_1_0_2: "float_add (Finite (3602879701896397 / 36028797018963968)) (Finite (3602879701896397 / 18014398509481984)) = Finite (1351079888211149 / 4503599627370496)"
  by (simp only: float_add.simps)
    (rule binary64_eqI [where e = "- 2"]; simp add: round_half_even_def Let_def)

subsection \<open>The transition rule\<close>



subsection \<open>Quiet samples\<close>

text \<open>
  Claim C3, as stated, fails. After the samples (20, Clear) and (23, Rain) the counter is 0:
  the categories differ but the temperatures differ by 3 only. With the sample (17, Clear)
  inserted between them, which has the category of (20, Clear) and a temperature within 3
  of it, the sample (23, Rain) is compared with (17, Clear), a difference of 6, and the
  counter is 1.
\<close>

theorem quiet_insert_fl_counterexample:
  "\<not> float_gt (float_abs (float_sub (Finite 17) (Finite 20))) (Finite 3)
   \<and> transitions_fl (add_samples_fl (WeatherData_fl_init ''2024-01-02'')
        [(Finite 20, ''Clear'', Finite 0, Finite 0), (Finite 17, ''Clear'', Finite 0, Finite 0), (Finite 23, ''Rain'', Finite 0, Finite 0)]) = 1
   \<and> transitions_fl (add_samples_fl (WeatherData_fl_init ''2024-01-02'')
        [(Finite 20, ''Clear'', Finite 0, Finite 0), (Finite 23, ''Rain'', Finite 0, Finite 0)]) = 0"
  by (simp add: WeatherData_fl_init_def add_sample_fl_def sub_3_1_0_1 sub_16_1_13_1 sub_24_5_20 sub_17_20 sub_23_17 sub_23_20 sub_22_20 sub_30_22 sub_30_20)

text \<open>
  Claim C3, amended. Insert, right after a sample \<open>(pt, pc)\<close>, a sample \<open>(t, c)\<close> with the
  same category and a temperature within 3 of \<open>pt\<close> (the program's test
  \<^verbatim>\<open>abs(t - pt) > 3\<close> is false). The final counter is unchanged when the inserted sample
  is the last of the sequence, or when the sample that follows it takes the same
  decision against \<open>(t, c)\<close> as against \<open>(pt, pc)\<close> (the category differs and the program's
  test on the temperatures is true). The inserted sample itself never adds a
  transition.
\<close>

theorem quiet_insert_fl_transitions:
  assumes "c = pc" and "\<not> float_gt (float_abs (float_sub t pt)) (Finite 3)"
    and "zs = [] \<or>
         (case hd zs of (nt, nc, nr, ns) \<Rightarrow>
            (nc \<noteq> c \<and> float_gt (float_abs (float_sub nt t)) (Finite 3)) =
            (nc \<noteq> pc \<and> float_gt (float_abs (float_sub nt pt)) (Finite 3)))"
  shows "transitions_fl (add_samples_fl (WeatherData_fl_init d)
           (ys @ [(pt, pc, pr, ps)] @ [(t, c, r, s)] @ zs)) =
         transitions_fl (add_samples_fl (WeatherData_fl_init d) (ys @ [(pt, pc, pr, ps)] @ zs))"
proof -
  define w0 where "w0 = add_samples_fl (WeatherData_fl_init d) (ys @ [(pt, pc, pr, ps)])"
  define w1 where "w1 = add_sample_fl w0 t c r s"
  have s0: "samples_fl w0 \<noteq> []" and l0: "last (samples_fl w0) = (pt, pc)"
    by (simp_all add: w0_def add_samples_fl_samples)
  have s1: "samples_fl w1 \<noteq> []" and l1: "last (samples_fl w1) = (t, c)"
    by (simp_all add: w1_def add_sample_fl_samples)
  have t1: "transitions_fl w1 = transitions_fl w0"
    using assms(1) s0 l0 by (simp add: w1_def add_sample_fl_transitions)
  have lhs: "add_samples_fl (WeatherData_fl_init d)
               (ys @ [(pt, pc, pr, ps)] @ [(t, c, r, s)] @ zs) = add_samples_fl w1 zs"
    using add_samples_fl_append [of "WeatherData_fl_init d" "ys @ [(pt, pc, pr, ps)]"
        "(t, c, r, s) # zs"]
    by (simp add: w0_def w1_def)
  have rhs: "add_samples_fl (WeatherData_fl_init d) (ys @ [(pt, pc, pr, ps)] @ zs) =
             add_samples_fl w0 zs"
    using add_samples_fl_append [of "WeatherData_fl_init d" "ys @ [(pt, pc, pr, ps)]" zs]
    by (simp add: w0_def)
  have "transitions_fl (add_samples_fl w1 zs) = transitions_fl (add_samples_fl w0 zs)"
  proof (cases zs)
    case Nil
    then show ?thesis by (simp add: t1)
  next
    case (Cons z zs')
    obtain nt nc nr ns where z: "z = (nt, nc, nr, ns)" by (cases z) auto
    let ?v1 = "add_sample_fl w1 nt nc nr ns" and ?v0 = "add_sample_fl w0 nt nc nr ns"
    have cond: "(nc \<noteq> c \<and> float_gt (float_abs (float_sub nt t)) (Finite 3)) =
            (nc \<noteq> pc \<and> float_gt (float_abs (float_sub nt pt)) (Finite 3))"
      using assms(3) Cons z by simp
    have eq: "transitions_fl ?v1 = transitions_fl ?v0"
      using cond s0 l0 s1 l1 t1 by (simp add: add_sample_fl_transitions)
    have "transitions_fl (add_samples_fl ?v1 zs') - transitions_fl ?v1 =
          transitions_fl (add_samples_fl ?v0 zs') - transitions_fl ?v0"
      by (rule add_samples_fl_transitions_shift) (simp_all add: add_sample_fl_samples)
    with eq show ?thesis by (simp add: Cons z)
  qed
  with lhs rhs show ?thesis by simp
qed

theorem quiet_insert_fl_transitions_witness:
  "''Clear'' = ''Clear''
   \<and> \<not> float_gt (float_abs (float_sub (Finite 22) (Finite 20))) (Finite 3)
   \<and> ([(Finite 30, ''Rain'', Finite 1, Finite 0)] = [] \<or>
       (case hd [(Finite 30, ''Rain'', Finite 1, Finite 0)] of (nt, nc, nr, ns) \<Rightarrow>
          (nc \<noteq> ''Clear'' \<and> float_gt (float_abs (float_sub nt (Finite 22))) (Finite 3)) =
          (nc \<noteq> ''Clear'' \<and> float_gt (float_abs (float_sub nt (Finite 20))) (Finite 3))))
   \<and> transitions_fl (add_samples_fl (WeatherData_fl_init ''2024-01-02'')
        ([(Finite 10, ''Rain'', Finite 0, Finite 0)] @ [(Finite 20, ''Clear'', Finite 0, Finite 0)] @ [(Finite 22, ''Clear'', Finite 0, Finite 0)]
           @ [(Finite 30, ''Rain'', Finite 1, Finite 0)])) =
     transitions_fl (add_samples_fl (WeatherData_fl_init ''2024-01-02'')
        ([(Finite 10, ''Rain'', Finite 0, Finite 0)] @ [(Finite 20, ''Clear'', Finite 0, Finite 0)] @ [(Finite 30, ''Rain'', Finite 1, Finite 0)]))"
proof -
  have h1: "''Clear'' = ''Clear''" by simp
  have h2: "\<not> float_gt (float_abs (float_sub (Finite 22) (Finite 20))) (Finite 3)"
    by (simp add: sub_3_1_0_1 sub_16_1_13_1 sub_24_5_20 sub_17_20 sub_23_17 sub_23_20 sub_22_20 sub_30_22 sub_30_20)
  have h3: "[(Finite 30, ''Rain'', Finite 1, Finite 0)] = [] \<or>
       (case hd [(Finite 30, ''Rain'', Finite 1, Finite 0)] of (nt, nc, nr, ns) \<Rightarrow>
          (nc \<noteq> ''Clear'' \<and> float_gt (float_abs (float_sub nt (Finite 22))) (Finite 3)) =
          (nc \<noteq> ''Clear'' \<and> float_gt (float_abs (float_sub nt (Finite 20))) (Finite 3)))"
    by (simp add: sub_3_1_0_1 sub_16_1_13_1 sub_24_5_20 sub_17_20 sub_23_17 sub_23_20 sub_22_20 sub_30_22 sub_30_20)
  show ?thesis
    using h1 h2 h3 quiet_insert_fl_transitions [OF h1 h2 h3, where d = "''2024-01-02''"
        and ys = "[(Finite 10, ''Rain'', Finite 0, Finite 0)]" and pr = "Finite 0" and ps = "Finite 0"
        and r = "Finite 0" and s = "Finite 0"]
    by blast
qed

subsection \<open>Accumulated precipitation\<close>

text \<open>
  Claim C7, as stated, fails: the accumulated amount is not always the exact sum of the
  amounts added. With 0.1 and then 0.2 added, \<open>rain_mm\<close> is the float
  0.30000000000000004, which is neither the sum of the two floats added nor 3/10:
  the second addition rounds to binary64.
\<close>

theorem rain_fl_sum_counterexample:
  "binary64 (1 / 10) = Finite (3602879701896397 / 36028797018963968)
   \<and> binary64 (2 / 10) = Finite (3602879701896397 / 18014398509481984)
   \<and> rain_mm_fl (add_samples_fl (WeatherData_fl_init ''2024-01-02'')
        [(Finite 20, ''Rain'', binary64 (1 / 10), Finite 0),
         (Finite 21, ''Rain'', binary64 (2 / 10), Finite 0)]) =
     Finite (1351079888211149 / 4503599627370496)
   \<and> (1351079888211149 / 4503599627370496 :: real) \<noteq>
       (3602879701896397 / 36028797018963968) + (3602879701896397 / 18014398509481984)
   \<and> (1351079888211149 / 4503599627370496 :: real) \<noteq> 3 / 10"
  unfolding binary64_0_1 binary64_0_2 binary64_3_1 binary64_13_1 binary64_16_1 add_samples_fl_rain_mm
  by (simp add: WeatherData_fl_init_def add_0_0_1 add_0_1_0_2 del: float_add.simps)

text \<open>
  Claim C7, amended. For every sequence of samples added to a fresh WeatherData object,
  \<open>rain_mm\<close> is the binary64 sum of the rain amounts, added one at a time in the order
  of arrival, starting from 0.0, and \<open>snow_mm\<close> likewise; it is the exact sum of the
  amounts whenever every partial sum is representable in binary64. No rounding to 1
  decimal place is applied on the way: \<open>to_dict\<close> applies it once, to that sum.
\<close>

theorem rain_snow_fl_sum:
  "rain_mm_fl (add_samples_fl (WeatherData_fl_init d) xs) =
     foldl float_add (Finite 0) (map (\<lambda>(t, c, r, s). r) xs)
   \<and> snow_mm_fl (add_samples_fl (WeatherData_fl_init d) xs) =
     foldl float_add (Finite 0) (map (\<lambda>(t, c, r, s). s) xs)
   \<and> rain_cumul_mm_fl (to_dict_fl (add_samples_fl (WeatherData_fl_init d) xs)) =
       round_float (foldl float_add (Finite 0) (map (\<lambda>(t, c, r, s). r) xs)) 1
   \<and> snow_cumul_mm_fl (to_dict_fl (add_samples_fl (WeatherData_fl_init d) xs)) =
       round_float (foldl float_add (Finite 0) (map (\<lambda>(t, c, r, s). s) xs)) 1
   \<and> (map (\<lambda>(t, c, r, s). r) xs = map Finite rs \<longrightarrow> sums_exact 0 rs \<longrightarrow>
        rain_mm_fl (add_samples_fl (WeatherData_fl_init d) xs) = Finite (sum_list rs))
   \<and> (map (\<lambda>(t, c, r, s). s) xs = map Finite ss \<longrightarrow> sums_exact 0 ss \<longrightarrow>
        snow_mm_fl (add_samples_fl (WeatherData_fl_init d) xs) = Finite (sum_list ss))"
proof -
  have r: "rain_mm_fl (add_samples_fl (WeatherData_fl_init d) xs) =
     foldl float_add (Finite 0) (map (\<lambda>(t, c, r, s). r) xs)"
    by (simp add: add_samples_fl_rain_mm WeatherData_fl_init_def)
  have s: "snow_mm_fl (add_samples_fl (WeatherData_fl_init d) xs) =
     foldl float_add (Finite 0) (map (\<lambda>(t, c, r, s). s) xs)"
    by (simp add: add_samples_fl_snow_mm WeatherData_fl_init_def)
  have rx: "rain_mm_fl (add_samples_fl (WeatherData_fl_init d) xs) = Finite (sum_list rs)"
    if "map (\<lambda>(t, c, r, s). r) xs = map Finite rs" "sums_exact 0 rs"
    using foldl_float_add_exact [OF that(2)] that(1) by (simp add: r)
  have sx: "snow_mm_fl (add_samples_fl (WeatherData_fl_init d) xs) = Finite (sum_list ss)"
    if "map (\<lambda>(t, c, r, s). s) xs = map Finite ss" "sums_exact 0 ss"
    using foldl_float_add_exact [OF that(2)] that(1) by (simp add: s)
  show ?thesis
    using r s rx sx by (simp add: to_dict_fl_def)
qed

lemma binary64_quarter: "binary64 (1 / 4) = Finite (1 / 4)"
  by (rule binary64_eqI [where e = "- 2"]) (simp_all add: round_half_even_def Let_def)

lemma binary64_three_quarters: "binary64 (3 / 4) = Finite (3 / 4)"
  by (rule binary64_eqI [where e = "- 1"]) (simp_all add: round_half_even_def Let_def)

lemma binary64_eighth: "binary64 (1 / 8) = Finite (1 / 8)"
  by (rule binary64_eqI [where e = "- 3"]) (simp_all add: round_half_even_def Let_def)

theorem rain_snow_fl_sum_witness:
  "map (\<lambda>(t, c, r, s). r)
        [(Finite 20, ''Rain'', Finite (1 / 4), Finite 0),
         (Finite 21, ''Rain'', Finite (1 / 2), Finite (1 / 8))] = map Finite [1 / 4, 1 / 2]
   \<and> sums_exact 0 [1 / 4, 1 / 2]
   \<and> rain_mm_fl (add_samples_fl (WeatherData_fl_init ''2024-01-02'')
        [(Finite 20, ''Rain'', Finite (1 / 4), Finite 0),
         (Finite 21, ''Rain'', Finite (1 / 2), Finite (1 / 8))]) = Finite (sum_list [1 / 4, 1 / 2])
   \<and> map (\<lambda>(t, c, r, s). s)
        [(Finite 20, ''Rain'', Finite (1 / 4), Finite 0),
         (Finite 21, ''Rain'', Finite (1 / 2), Finite (1 / 8))] = map Finite [0, 1 / 8]
   \<and> sums_exact 0 [0, 1 / 8]
   \<and> snow_mm_fl (add_samples_fl (WeatherData_fl_init ''2024-01-02'')
        [(Finite 20, ''Rain'', Finite (1 / 4), Finite 0),
         (Finite 21, ''Rain'', Finite (1 / 2), Finite (1 / 8))]) = Finite (sum_list [0, 1 / 8])"
proof -
  have rm: "map (\<lambda>(t, c, r, s). r)
        [(Finite 20, ''Rain'', Finite (1 / 4), Finite 0),
         (Finite 21, ''Rain'', Finite (1 / 2), Finite (1 / 8))] = map Finite [1 / 4, 1 / 2]" by simp
  have re: "sums_exact 0 [1 / 4, 1 / 2]"
    by (simp add: binary64_quarter binary64_three_quarters)
  have sm: "map (\<lambda>(t, c, r, s). s)
        [(Finite 20, ''Rain'', Finite (1 / 4), Finite 0),
         (Finite 21, ''Rain'', Finite (1 / 2), Finite (1 / 8))] = map Finite [0, 1 / 8]" by simp
  have se: "sums_exact 0 [0, 1 / 8]"
    by (simp add: binary64_0 binary64_eighth)
  note sums = rain_snow_fl_sum [where d = "''2024-01-02''"
      and xs = "[(Finite 20, ''Rain'', Finite (1 / 4), Finite 0),
         (Finite 21, ''Rain'', Finite (1 / 2), Finite (1 / 8))]"
      and rs = "[1 / 4, 1 / 2]" and ss = "[0, 1 / 8]"]
  show ?thesis
    using rm re sm se sums by blast
qed

section \<open>Properties of the report on floats\<close>

subsection \<open>Some values\<close>

text \<open>
  The floats of \<^verbatim>\<open>0.02\<close>, \<^verbatim>\<open>0.03\<close> and \<^verbatim>\<open>0.04\<close>, and the sums and roundings used below.
  In Python \<^verbatim>\<open>0.02 + 0.03\<close> is \<^verbatim>\<open>0.05\<close>, \<^verbatim>\<open>round(0.05, 1)\<close> is \<^verbatim>\<open>0.1\<close>,
  \<^verbatim>\<open>round(0.04, 1)\<close> is \<^verbatim>\<open>0.0\<close> and \<^verbatim>\<open>round(0.08, 1)\<close> is \<^verbatim>\<open>0.1\<close>.
\<close>

lemma binary64_0_04: "binary64 (4 / 100) = Finite (5764607523034235 / 144115188075855872)"
  by (rule binary64_eqI [where e = "- 5"]) (simp_all add: round_half_even_def Let_def)

lemma binary64_0_02: "binary64 (2 / 100) = Finite (5764607523034235 / 288230376151711744)"
  by (rule binary64_eqI [where e = "- 6"]) (simp_all add: round_half_even_def Let_def)

lemma binary64_0_03: "binary64 (3 / 100) = Finite (1080863910568919 / 36028797018963968)"
  by (rule binary64_eqI [where e = "- 6"]) (simp_all add: round_half_even_def Let_def)

lemma add_0_0: "float_add (Finite 0) (Finite 0) = Finite 0"
  by (simp add: binary64_0)

lemma add_0_0_04: "float_add (Finite 0) (Finite (5764607523034235 / 144115188075855872)) = Finite (5764607523034235 / 144115188075855872)"
  by (simp only: float_add.simps)
    (rule binary64_eqI [where e = "- 5"]; simp add: round_half_even_def Let_def)

lemma add_0_04_0_04: "float_add (Finite (5764607523034235 / 144115188075855872)) (Finite (5764607523034235 / 144115188075855872)) = Finite (5764607523034235 / 72057594037927936)"
  by (simp only: float_add.simps)
    (rule binary64_eqI [where e = "- 4"]; simp add: round_half_even_def Let_def)

lemma add_0_0_02: "float_add (Finite 0) (Finite (5764607523034235 / 288230376151711744)) = Finite (5764607523034235 / 288230376151711744)"
  by (simp only: float_add.simps)
    (rule binary64_eqI [where e = "- 6"]; simp add: round_half_even_def Let_def)

lemma add_0_02_0_03: "float_add (Finite (5764607523034235 / 288230376151711744)) (Finite (1080863910568919 / 36028797018963968)) = Finite (3602879701896397 / 72057594037927936)"
  by (simp only: float_add.simps)
    (rule binary64_eqI [where e = "- 5"]; simp add: round_half_even_def Let_def)

lemma round_0: "round_float (Finite 0) 1 = Finite 0"
  by (simp add: round_half_even_def binary64_0)

lemma round_0_04: "round_float (Finite (5764607523034235 / 144115188075855872)) 1 = Finite 0"
  by (simp add: round_half_even_def Let_def binary64_0 )

lemma round_0_08: "round_float (Finite (5764607523034235 / 72057594037927936)) 1 = Finite (3602879701896397 / 36028797018963968)"
  by (simp add: round_half_even_def Let_def binary64_0 binary64_0_1)

lemma round_0_05: "round_float (Finite (3602879701896397 / 72057594037927936)) 1 = Finite (3602879701896397 / 36028797018963968)"
  by (simp add: round_half_even_def Let_def binary64_0 binary64_0_1)

lemma binary64_half: "binary64 (1 / 2) = Finite (1 / 2)"
  by (rule binary64_eqI [where e = "- 1"]) (simp_all add: round_half_even_def Let_def)

lemma binary64_5_2: "binary64 (5 / 2) = Finite (5 / 2)"
  by (rule binary64_eqI [where e = "1"]) (simp_all add: round_half_even_def Let_def)

text \<open>A day with 0.02 and then 0.03 mm of rain reports 0.1.\<close>

lemma day_0_02_0_03:
  "rain_cumul_mm_fl (to_dict_fl (add_samples_fl (WeatherData_fl_init ''2024-01-02'')
     [(Finite 5, ''Rain'', binary64 (2 / 100), Finite 0),
      (Finite 6, ''Rain'', binary64 (3 / 100), Finite 0)])) =
   binary64 (1 / 10)"
  unfolding binary64_0_02 binary64_0_03 binary64_0_1
  by (simp add: add_sample_fl_rain_mm WeatherData_fl_init_def to_dict_fl_def
      add_0_0_02 add_0_02_0_03 round_0_05
      del: float_add.simps round_float.simps One_nat_def)

subsection \<open>Totals of the period\<close>

lemma sort_key_sorted: "sorted (map f xs) \<Longrightarrow> sort_key f xs = xs"
  by (induction xs) (auto simp: insort_is_Cons)

lemma report_fl_rain_cumul:
  "map rain_cumul_mm_fl (forecast_details_fl (generate_report_fl sum_py upper self)) =
     map (\<lambda>w. round_float (rain_mm_fl w) 1) (sort_key date_fl (map snd (daily_data_fl self)))"
  by (simp add: generate_report_fl_def to_dict_fl_def comp_def)

lemma report_fl_snow_cumul:
  "map snow_cumul_mm_fl (forecast_details_fl (generate_report_fl sum_py upper self)) =
     map (\<lambda>w. round_float (snow_mm_fl w) 1) (sort_key date_fl (map snd (daily_data_fl self)))"
  by (simp add: generate_report_fl_def to_dict_fl_def comp_def)

text \<open>
  Claim C1, as stated, fails. Two days with 0.04 mm of rain each: each day's
  \<open>rain_cumul_mm\<close> is \<open>round(0.04, 1) = 0.0\<close>, so the rounded sum of the entries is 0.0,
  while \<open>total_rain_period_mm\<close> is \<open>round(0.08, 1) = 0.1\<close>: the total is computed from the
  unrounded sums of the days. (For these two values the builtin \<^verbatim>\<open>sum\<close> gives 0.08 with
  either of its algorithms.)
\<close>

theorem report_fl_totals_counterexample:
  "process_forecasts_fl (map_of [(1704190000, ''2024-01-02''), (1704280000, ''2024-01-03'')])
      ''2024-01-01'' (WeatherForecast_fl_init ''key'' ''Paris'' ''FR'')
      [\<lparr>dt_fl = Some 1704190000, main_temp_fl = Some (Finite 6), main_humidity_fl = Some 70,
        weather_fl = Some [Some ''Rain''], rain_3h_fl = Some (binary64 (4 / 100)), snow_3h_fl = None\<rparr>,
       \<lparr>dt_fl = Some 1704280000, main_temp_fl = Some (Finite 5), main_humidity_fl = Some 80,
        weather_fl = Some [Some ''Rain''], rain_3h_fl = Some (binary64 (4 / 100)), snow_3h_fl = None\<rparr>] =
    Inr \<lparr>api_key_fl = ''key'', city_fl = ''Paris'', country_fl = ''FR'',
        daily_data_fl =
         [(''2024-01-02'', \<lparr>date_fl = ''2024-01-02'', rain_mm_fl = Finite (5764607523034235 / 144115188075855872), snow_mm_fl = Finite 0,
          transitions_fl = 0, samples_fl = [(Finite 6, ''Rain'')]\<rparr>),
          (''2024-01-03'', \<lparr>date_fl = ''2024-01-03'', rain_mm_fl = Finite (5764607523034235 / 144115188075855872), snow_mm_fl = Finite 0,
          transitions_fl = 0, samples_fl = [(Finite 5, ''Rain'')]\<rparr>)],
        max_humidity_fl = 80, location_name_fl = []\<rparr>
   \<and> generate_report_fl sum_left id
      \<lparr>api_key_fl = ''key'', city_fl = ''Paris'', country_fl = ''FR'',
        daily_data_fl =
         [(''2024-01-02'', \<lparr>date_fl = ''2024-01-02'', rain_mm_fl = Finite (5764607523034235 / 144115188075855872), snow_mm_fl = Finite 0,
          transitions_fl = 0, samples_fl = [(Finite 6, ''Rain'')]\<rparr>),
          (''2024-01-03'', \<lparr>date_fl = ''2024-01-03'', rain_mm_fl = Finite (5764607523034235 / 144115188075855872), snow_mm_fl = Finite 0,
          transitions_fl = 0, samples_fl = [(Finite 5, ''Rain'')]\<rparr>)],
        max_humidity_fl = 80, location_name_fl = []\<rparr> =
    \<lparr>forecast_location_name_fl = [], country_code_fl = ''FR'',
        total_rain_period_mm_fl = Finite (3602879701896397 / 36028797018963968),
        total_snow_period_mm_fl = Finite 0, max_humidity_period_fl = 80,
        forecast_details_fl =
         [\<lparr>date_local_fl = ''2024-01-02'', rain_cumul_mm_fl = Finite 0, snow_cumul_mm_fl = Finite 0,
          major_transitions_count_fl = 0\<rparr>,
          \<lparr>date_local_fl = ''2024-01-03'', rain_cumul_mm_fl = Finite 0, snow_cumul_mm_fl = Finite 0,
          major_transitions_count_fl = 0\<rparr>]\<rparr>
   \<and> total_rain_period_mm_fl
      \<lparr>forecast_location_name_fl = [], country_code_fl = ''FR'',
        total_rain_period_mm_fl = Finite (3602879701896397 / 36028797018963968),
        total_snow_period_mm_fl = Finite 0, max_humidity_period_fl = 80,
        forecast_details_fl =
         [\<lparr>date_local_fl = ''2024-01-02'', rain_cumul_mm_fl = Finite 0, snow_cumul_mm_fl = Finite 0,
          major_transitions_count_fl = 0\<rparr>,
          \<lparr>date_local_fl = ''2024-01-03'', rain_cumul_mm_fl = Finite 0, snow_cumul_mm_fl = Finite 0,
          major_transitions_count_fl = 0\<rparr>]\<rparr> \<noteq>
    round_float (sum_left (map rain_cumul_mm_fl (forecast_details_fl
      \<lparr>forecast_location_name_fl = [], country_code_fl = ''FR'',
        total_rain_period_mm_fl = Finite (3602879701896397 / 36028797018963968),
        total_snow_period_mm_fl = Finite 0, max_humidity_period_fl = 80,
        forecast_details_fl =
         [\<lparr>date_local_fl = ''2024-01-02'', rain_cumul_mm_fl = Finite 0, snow_cumul_mm_fl = Finite 0,
          major_transitions_count_fl = 0\<rparr>,
          \<lparr>date_local_fl = ''2024-01-03'', rain_cumul_mm_fl = Finite 0, snow_cumul_mm_fl = Finite 0,
          major_transitions_count_fl = 0\<rparr>]\<rparr>))) 1"
  unfolding binary64_0_04
  by (simp add: process_forecast_fl_def generate_report_fl_def WeatherForecast_fl_init_def
      WeatherData_fl_init_def add_sample_fl_def to_dict_fl_def sum_left_def Let_def
      add_0_0 add_0_0_04 add_0_04_0_04 round_0 round_0_04 round_0_08
      del: float_add.simps round_float.simps One_nat_def)

text \<open>
  Claim C1, amended. \<open>total_rain_period_mm\<close> is the sum, as the builtin \<^verbatim>\<open>sum\<close> computes it
  in the order of the dictionary, of the unrounded rain totals \<open>rain_mm\<close> of all days,
  rounded once to 1 decimal place; each \<open>rain_cumul_mm\<close> of \<open>forecast_details\<close> is its day's
  \<open>rain_mm\<close> rounded to 1 decimal place. The total equals the sum of the \<open>rain_cumul_mm\<close>
  entries, rounded once, when the days entered the dictionary in the order of their
  dates and every day's \<open>rain_mm\<close> is unchanged by the rounding to 1 decimal place. The
  same holds for snow.
\<close>

theorem report_fl_totals:
  "total_rain_period_mm_fl (generate_report_fl sum_py upper self) =
     round_float (sum_py (map rain_mm_fl (map snd (daily_data_fl self)))) 1
   \<and> total_snow_period_mm_fl (generate_report_fl sum_py upper self) =
     round_float (sum_py (map snow_mm_fl (map snd (daily_data_fl self)))) 1
   \<and> map rain_cumul_mm_fl (forecast_details_fl (generate_report_fl sum_py upper self)) =
       map (\<lambda>w. round_float (rain_mm_fl w) 1) (sort_key date_fl (map snd (daily_data_fl self)))
   \<and> map snow_cumul_mm_fl (forecast_details_fl (generate_report_fl sum_py upper self)) =
       map (\<lambda>w. round_float (snow_mm_fl w) 1) (sort_key date_fl (map snd (daily_data_fl self)))
   \<and> (sorted (map date_fl (map snd (daily_data_fl self))) \<longrightarrow>
        (\<forall>w\<in>set (map snd (daily_data_fl self)). round_float (rain_mm_fl w) 1 = rain_mm_fl w) \<longrightarrow>
        total_rain_period_mm_fl (generate_report_fl sum_py upper self) =
          round_float (sum_py (map rain_cumul_mm_fl
            (forecast_details_fl (generate_report_fl sum_py upper self)))) 1)
   \<and> (sorted (map date_fl (map snd (daily_data_fl self))) \<longrightarrow>
        (\<forall>w\<in>set (map snd (daily_data_fl self)). round_float (snow_mm_fl w) 1 = snow_mm_fl w) \<longrightarrow>
        total_snow_period_mm_fl (generate_report_fl sum_py upper self) =
          round_float (sum_py (map snow_cumul_mm_fl
            (forecast_details_fl (generate_report_fl sum_py upper self)))) 1)"
proof -
  let ?ws = "map snd (daily_data_fl self)"
  have tr: "total_rain_period_mm_fl (generate_report_fl sum_py upper self) =
      round_float (sum_py (map rain_mm_fl ?ws)) 1"
    and ts: "total_snow_period_mm_fl (generate_report_fl sum_py upper self) =
      round_float (sum_py (map snow_mm_fl ?ws)) 1"
    by (simp_all add: generate_report_fl_def)
  have xr: "total_rain_period_mm_fl (generate_report_fl sum_py upper self) =
          round_float (sum_py (map rain_cumul_mm_fl
            (forecast_details_fl (generate_report_fl sum_py upper self)))) 1"
    if "sorted (map date_fl ?ws)" "\<forall>w\<in>set ?ws. round_float (rain_mm_fl w) 1 = rain_mm_fl w"
  proof -
    have e: "map (\<lambda>w. round_float (rain_mm_fl w) 1) ?ws = map rain_mm_fl ?ws"
      by (rule map_cong [OF refl]) (use that(2) in blast)
    show ?thesis
      unfolding tr report_fl_rain_cumul sort_key_sorted [OF that(1)] e by (rule refl)
  qed
  have xs: "total_snow_period_mm_fl (generate_report_fl sum_py upper self) =
          round_float (sum_py (map snow_cumul_mm_fl
            (forecast_details_fl (generate_report_fl sum_py upper self)))) 1"
    if "sorted (map date_fl ?ws)" "\<forall>w\<in>set ?ws. round_float (snow_mm_fl w) 1 = snow_mm_fl w"
  proof -
    have e: "map (\<lambda>w. round_float (snow_mm_fl w) 1) ?ws = map snow_mm_fl ?ws"
      by (rule map_cong [OF refl]) (use that(2) in blast)
    show ?thesis
      unfolding ts report_fl_snow_cumul sort_key_sorted [OF that(1)] e by (rule refl)
  qed
  from tr ts report_fl_rain_cumul report_fl_snow_cumul xr xs show ?thesis
    by blast
qed

theorem report_fl_totals_witness:
  "sorted (map date_fl (map snd (daily_data_fl
       \<lparr>api_key_fl = ''key'', city_fl = ''Paris'', country_fl = ''FR'',
        daily_data_fl =
         [(''2024-01-02'', \<lparr>date_fl = ''2024-01-02'', rain_mm_fl = Finite (1 / 2), snow_mm_fl = Finite 0,
          transitions_fl = 0, samples_fl = [(Finite 5, ''Rain'')]\<rparr>),
          (''2024-01-03'', \<lparr>date_fl = ''2024-01-03'', rain_mm_fl = Finite (5 / 2), snow_mm_fl = Finite (1 / 2),
          transitions_fl = 0, samples_fl = [(Finite 5, ''Rain'')]\<rparr>)],
        max_humidity_fl = 80, location_name_fl = ''Paris''\<rparr>)))
   \<and> round_float (rain_mm_fl \<lparr>date_fl = ''2024-01-02'', rain_mm_fl = Finite (1 / 2), snow_mm_fl = Finite 0,
          transitions_fl = 0, samples_fl = [(Finite 5, ''Rain'')]\<rparr>) 1 =
     rain_mm_fl \<lparr>date_fl = ''2024-01-02'', rain_mm_fl = Finite (1 / 2), snow_mm_fl = Finite 0,
          transitions_fl = 0, samples_fl = [(Finite 5, ''Rain'')]\<rparr>
   \<and> round_float (rain_mm_fl \<lparr>date_fl = ''2024-01-03'', rain_mm_fl = Finite (5 / 2), snow_mm_fl = Finite (1 / 2),
          transitions_fl = 0, samples_fl = [(Finite 5, ''Rain'')]\<rparr>) 1 =
     rain_mm_fl \<lparr>date_fl = ''2024-01-03'', rain_mm_fl = Finite (5 / 2), snow_mm_fl = Finite (1 / 2),
          transitions_fl = 0, samples_fl = [(Finite 5, ''Rain'')]\<rparr>
   \<and> round_float (snow_mm_fl \<lparr>date_fl = ''2024-01-02'', rain_mm_fl = Finite (1 / 2), snow_mm_fl = Finite 0,
          transitions_fl = 0, samples_fl = [(Finite 5, ''Rain'')]\<rparr>) 1 =
     snow_mm_fl \<lparr>date_fl = ''2024-01-02'', rain_mm_fl = Finite (1 / 2), snow_mm_fl = Finite 0,
          transitions_fl = 0, samples_fl = [(Finite 5, ''Rain'')]\<rparr>
   \<and> round_float (snow_mm_fl \<lparr>date_fl = ''2024-01-03'', rain_mm_fl = Finite (5 / 2), snow_mm_fl = Finite (1 / 2),
          transitions_fl = 0, samples_fl = [(Finite 5, ''Rain'')]\<rparr>) 1 =
     snow_mm_fl \<lparr>date_fl = ''2024-01-03'', rain_mm_fl = Finite (5 / 2), snow_mm_fl = Finite (1 / 2),
          transitions_fl = 0, samples_fl = [(Finite 5, ''Rain'')]\<rparr>
   \<and> total_rain_period_mm_fl (generate_report_fl sum_left id
       \<lparr>api_key_fl = ''key'', city_fl = ''Paris'', country_fl = ''FR'',
        daily_data_fl =
         [(''2024-01-02'', \<lparr>date_fl = ''2024-01-02'', rain_mm_fl = Finite (1 / 2), snow_mm_fl = Finite 0,
          transitions_fl = 0, samples_fl = [(Finite 5, ''Rain'')]\<rparr>),
          (''2024-01-03'', \<lparr>date_fl = ''2024-01-03'', rain_mm_fl = Finite (5 / 2), snow_mm_fl = Finite (1 / 2),
          transitions_fl = 0, samples_fl = [(Finite 5, ''Rain'')]\<rparr>)],
        max_humidity_fl = 80, location_name_fl = ''Paris''\<rparr>) =
     round_float (sum_left (map rain_cumul_mm_fl (forecast_details_fl (generate_report_fl sum_left id
       \<lparr>api_key_fl = ''key'', city_fl = ''Paris'', country_fl = ''FR'',
        daily_data_fl =
         [(''2024-01-02'', \<lparr>date_fl = ''2024-01-02'', rain_mm_fl = Finite (1 / 2), snow_mm_fl = Finite 0,
          transitions_fl = 0, samples_fl = [(Finite 5, ''Rain'')]\<rparr>),
          (''2024-01-03'', \<lparr>date_fl = ''2024-01-03'', rain_mm_fl = Finite (5 / 2), snow_mm_fl = Finite (1 / 2),
          transitions_fl = 0, samples_fl = [(Finite 5, ''Rain'')]\<rparr>)],
        max_humidity_fl = 80, location_name_fl = ''Paris''\<rparr>)))) 1
   \<and> total_snow_period_mm_fl (generate_report_fl sum_left id
       \<lparr>api_key_fl = ''key'', city_fl = ''Paris'', country_fl = ''FR'',
        daily_data_fl =
         [(''2024-01-02'', \<lparr>date_fl = ''2024-01-02'', rain_mm_fl = Finite (1 / 2), snow_mm_fl = Finite 0,
          transitions_fl = 0, samples_fl = [(Finite 5, ''Rain'')]\<rparr>),
          (''2024-01-03'', \<lparr>date_fl = ''2024-01-03'', rain_mm_fl = Finite (5 / 2), snow_mm_fl = Finite (1 / 2),
          transitions_fl = 0, samples_fl = [(Finite 5, ''Rain'')]\<rparr>)],
        max_humidity_fl = 80, location_name_fl = ''Paris''\<rparr>) =
     round_float (sum_left (map snow_cumul_mm_fl (forecast_details_fl (generate_report_fl sum_left id
       \<lparr>api_key_fl = ''key'', city_fl = ''Paris'', country_fl = ''FR'',
        daily_data_fl =
         [(''2024-01-02'', \<lparr>date_fl = ''2024-01-02'', rain_mm_fl = Finite (1 / 2), snow_mm_fl = Finite 0,
          transitions_fl = 0, samples_fl = [(Finite 5, ''Rain'')]\<rparr>),
          (''2024-01-03'', \<lparr>date_fl = ''2024-01-03'', rain_mm_fl = Finite (5 / 2), snow_mm_fl = Finite (1 / 2),
          transitions_fl = 0, samples_fl = [(Finite 5, ''Rain'')]\<rparr>)],
        max_humidity_fl = 80, location_name_fl = ''Paris''\<rparr>)))) 1"
proof -
  have srt: "sorted (map date_fl (map snd (daily_data_fl
       \<lparr>api_key_fl = ''key'', city_fl = ''Paris'', country_fl = ''FR'',
        daily_data_fl =
         [(''2024-01-02'', \<lparr>date_fl = ''2024-01-02'', rain_mm_fl = Finite (1 / 2), snow_mm_fl = Finite 0,
          transitions_fl = 0, samples_fl = [(Finite 5, ''Rain'')]\<rparr>),
          (''2024-01-03'', \<lparr>date_fl = ''2024-01-03'', rain_mm_fl = Finite (5 / 2), snow_mm_fl = Finite (1 / 2),
          transitions_fl = 0, samples_fl = [(Finite 5, ''Rain'')]\<rparr>)],
        max_humidity_fl = 80, location_name_fl = ''Paris''\<rparr>)))"
    by simp
  have hr: "\<forall>w\<in>set (map snd (daily_data_fl
       \<lparr>api_key_fl = ''key'', city_fl = ''Paris'', country_fl = ''FR'',
        daily_data_fl =
         [(''2024-01-02'', \<lparr>date_fl = ''2024-01-02'', rain_mm_fl = Finite (1 / 2), snow_mm_fl = Finite 0,
          transitions_fl = 0, samples_fl = [(Finite 5, ''Rain'')]\<rparr>),
          (''2024-01-03'', \<lparr>date_fl = ''2024-01-03'', rain_mm_fl = Finite (5 / 2), snow_mm_fl = Finite (1 / 2),
          transitions_fl = 0, samples_fl = [(Finite 5, ''Rain'')]\<rparr>)],
        max_humidity_fl = 80, location_name_fl = ''Paris''\<rparr>)).
      round_float (rain_mm_fl w) 1 = rain_mm_fl w"
    by (simp add: round_half_even_def Let_def binary64_0 binary64_half binary64_5_2)
  have hs: "\<forall>w\<in>set (map snd (daily_data_fl
       \<lparr>api_key_fl = ''key'', city_fl = ''Paris'', country_fl = ''FR'',
        daily_data_fl =
         [(''2024-01-02'', \<lparr>date_fl = ''2024-01-02'', rain_mm_fl = Finite (1 / 2), snow_mm_fl = Finite 0,
          transitions_fl = 0, samples_fl = [(Finite 5, ''Rain'')]\<rparr>),
          (''2024-01-03'', \<lparr>date_fl = ''2024-01-03'', rain_mm_fl = Finite (5 / 2), snow_mm_fl = Finite (1 / 2),
          transitions_fl = 0, samples_fl = [(Finite 5, ''Rain'')]\<rparr>)],
        max_humidity_fl = 80, location_name_fl = ''Paris''\<rparr>)).
      round_float (snow_mm_fl w) 1 = snow_mm_fl w"
    by (simp add: round_half_even_def Let_def binary64_0 binary64_half binary64_5_2)
  note totals = report_fl_totals [of sum_left id
      "\<lparr>api_key_fl = ''key'', city_fl = ''Paris'', country_fl = ''FR'',
        daily_data_fl =
         [(''2024-01-02'', \<lparr>date_fl = ''2024-01-02'', rain_mm_fl = Finite (1 / 2), snow_mm_fl = Finite 0,
          transitions_fl = 0, samples_fl = [(Finite 5, ''Rain'')]\<rparr>),
          (''2024-01-03'', \<lparr>date_fl = ''2024-01-03'', rain_mm_fl = Finite (5 / 2), snow_mm_fl = Finite (1 / 2),
          transitions_fl = 0, samples_fl = [(Finite 5, ''Rain'')]\<rparr>)],
        max_humidity_fl = 80, location_name_fl = ''Paris''\<rparr>"]
  have cr: "total_rain_period_mm_fl (generate_report_fl sum_left id
       \<lparr>api_key_fl = ''key'', city_fl = ''Paris'', country_fl = ''FR'',
        daily_data_fl =
         [(''2024-01-02'', \<lparr>date_fl = ''2024-01-02'', rain_mm_fl = Finite (1 / 2), snow_mm_fl = Finite 0,
          transitions_fl = 0, samples_fl = [(Finite 5, ''Rain'')]\<rparr>),
          (''2024-01-03'', \<lparr>date_fl = ''2024-01-03'', rain_mm_fl = Finite (5 / 2), snow_mm_fl = Finite (1 / 2),
          transitions_fl = 0, samples_fl = [(Finite 5, ''Rain'')]\<rparr>)],
        max_humidity_fl = 80, location_name_fl = ''Paris''\<rparr>) =
     round_float (sum_left (map rain_cumul_mm_fl (forecast_details_fl (generate_report_fl sum_left id
       \<lparr>api_key_fl = ''key'', city_fl = ''Paris'', country_fl = ''FR'',
        daily_data_fl =
         [(''2024-01-02'', \<lparr>date_fl = ''2024-01-02'', rain_mm_fl = Finite (1 / 2), snow_mm_fl = Finite 0,
          transitions_fl = 0, samples_fl = [(Finite 5, ''Rain'')]\<rparr>),
          (''2024-01-03'', \<lparr>date_fl = ''2024-01-03'', rain_mm_fl = Finite (5 / 2), snow_mm_fl = Finite (1 / 2),
          transitions_fl = 0, samples_fl = [(Finite 5, ''Rain'')]\<rparr>)],
        max_humidity_fl = 80, location_name_fl = ''Paris''\<rparr>)))) 1"
    using totals srt hr by blast
  have cs: "total_snow_period_mm_fl (generate_report_fl sum_left id
       \<lparr>api_key_fl = ''key'', city_fl = ''Paris'', country_fl = ''FR'',
        daily_data_fl =
         [(''2024-01-02'', \<lparr>date_fl = ''2024-01-02'', rain_mm_fl = Finite (1 / 2), snow_mm_fl = Finite 0,
          transitions_fl = 0, samples_fl = [(Finite 5, ''Rain'')]\<rparr>),
          (''2024-01-03'', \<lparr>date_fl = ''2024-01-03'', rain_mm_fl = Finite (5 / 2), snow_mm_fl = Finite (1 / 2),
          transitions_fl = 0, samples_fl = [(Finite 5, ''Rain'')]\<rparr>)],
        max_humidity_fl = 80, location_name_fl = ''Paris''\<rparr>) =
     round_float (sum_left (map snow_cumul_mm_fl (forecast_details_fl (generate_report_fl sum_left id
       \<lparr>api_key_fl = ''key'', city_fl = ''Paris'', country_fl = ''FR'',
        daily_data_fl =
         [(''2024-01-02'', \<lparr>date_fl = ''2024-01-02'', rain_mm_fl = Finite (1 / 2), snow_mm_fl = Finite 0,
          transitions_fl = 0, samples_fl = [(Finite 5, ''Rain'')]\<rparr>),
          (''2024-01-03'', \<lparr>date_fl = ''2024-01-03'', rain_mm_fl = Finite (5 / 2), snow_mm_fl = Finite (1 / 2),
          transitions_fl = 0, samples_fl = [(Finite 5, ''Rain'')]\<rparr>)],
        max_humidity_fl = 80, location_name_fl = ''Paris''\<rparr>)))) 1"
    using totals srt hs by blast
  show ?thesis
    using srt cr cs by (simp add: round_half_even_def Let_def binary64_0 binary64_half binary64_5_2 del: One_nat_def)
qed

end
